theory Spec2Isabelle
  imports Main "HOL-Library.Word"
begin

section \<open>The option schema: the \<^verbatim>\<open>Flags\<close> struct of \<^verbatim>\<open>internal/cli/flags.go\<close>\<close>

text \<open>
  \<^verbatim>\<open>Init\<close> walks the fields of \<^verbatim>\<open>Flags\<close> by reflection
  (\<^verbatim>\<open>t.NumField()\<close>, \<^verbatim>\<open>t.Field(i)\<close>, \<^verbatim>\<open>field.Tag.Get\<close>), so the
  struct is modelled the way reflection sees it: a list of field descriptors, in declaration
  order, and a struct value as the list of its field values at the same indices.
  \<^verbatim>\<open>Tag.Get\<close> returns the empty string for a tag that is not there; the
  descriptors do the same. Only the tags that \<^verbatim>\<open>Init\<close> reads are kept
  (\<^verbatim>\<open>short\<close>, \<^verbatim>\<open>long\<close>, \<^verbatim>\<open>yaml\<close>).
\<close>

datatype kind = KString | KInt | KFloat64 | KBool | KMap | KSlice

text \<open>A \<^verbatim>\<open>float64\<close> is its IEEE 754 bit pattern; Go's \<^verbatim>\<open>int\<close> is 64 bits wide.\<close>

type_synonym float64 = "64 word"

datatype rvalue =
    VString string
  | VInt int
  | VFloat float64
  | VBool bool
  | VMap "(string \<times> string) list"
  | VSlice "string list"

fun kind_of :: "rvalue \<Rightarrow> kind" where
  "kind_of (VString s) = KString"
| "kind_of (VInt n) = KInt"
| "kind_of (VFloat x) = KFloat64"
| "kind_of (VBool b) = KBool"
| "kind_of (VMap m) = KMap"
| "kind_of (VSlice xs) = KSlice"

record StructField =
  Name :: string
  Kind :: kind
  short_tag :: string
  long_tag :: string
  yaml_tag :: string

definition Flags_fields :: "StructField list" where
  "Flags_fields = [
     \<lparr>Name = ''Pattern'', Kind = KString, short_tag = ''p'', long_tag = ''pattern'', yaml_tag = ''pattern''\<rparr>,
     \<lparr>Name = ''PatternVariables'', Kind = KMap, short_tag = ''v'', long_tag = ''variable'', yaml_tag = ''''\<rparr>,
     \<lparr>Name = ''Context'', Kind = KString, short_tag = ''C'', long_tag = ''context'', yaml_tag = ''''\<rparr>,
     \<lparr>Name = ''Session'', Kind = KString, short_tag = '''', long_tag = ''session'', yaml_tag = ''''\<rparr>,
     \<lparr>Name = ''Attachments'', Kind = KSlice, short_tag = ''a'', long_tag = ''attachment'', yaml_tag = ''''\<rparr>,
     \<lparr>Name = ''Setup'', Kind = KBool, short_tag = ''S'', long_tag = ''setup'', yaml_tag = ''''\<rparr>,
     \<lparr>Name = ''Temperature'', Kind = KFloat64, short_tag = ''t'', long_tag = ''temperature'', yaml_tag = ''temperature''\<rparr>,
     \<lparr>Name = ''TopP'', Kind = KFloat64, short_tag = ''T'', long_tag = ''topp'', yaml_tag = ''topp''\<rparr>,
     \<lparr>Name = ''Stream'', Kind = KBool, short_tag = ''s'', long_tag = ''stream'', yaml_tag = ''stream''\<rparr>,
     \<lparr>Name = ''PresencePenalty'', Kind = KFloat64, short_tag = ''P'', long_tag = ''presencepenalty'', yaml_tag = ''presencepenalty''\<rparr>,
     \<lparr>Name = ''Raw'', Kind = KBool, short_tag = ''r'', long_tag = ''raw'', yaml_tag = ''raw''\<rparr>,
     \<lparr>Name = ''FrequencyPenalty'', Kind = KFloat64, short_tag = ''F'', long_tag = ''frequencypenalty'', yaml_tag = ''frequencypenalty''\<rparr>,
     \<lparr>Name = ''ListPatterns'', Kind = KBool, short_tag = ''l'', long_tag = ''listpatterns'', yaml_tag = ''''\<rparr>,
     \<lparr>Name = ''ListAllModels'', Kind = KBool, short_tag = ''L'', long_tag = ''listmodels'', yaml_tag = ''''\<rparr>,
     \<lparr>Name = ''ListAllContexts'', Kind = KBool, short_tag = ''x'', long_tag = ''listcontexts'', yaml_tag = ''''\<rparr>,
     \<lparr>Name = ''ListAllSessions'', Kind = KBool, short_tag = ''X'', long_tag = ''listsessions'', yaml_tag = ''''\<rparr>,
     \<lparr>Name = ''UpdatePatterns'', Kind = KBool, short_tag = ''U'', long_tag = ''updatepatterns'', yaml_tag = ''''\<rparr>,
     \<lparr>Name = ''Message'', Kind = KString, short_tag = '''', long_tag = '''', yaml_tag = ''''\<rparr>,
     \<lparr>Name = ''Copy'', Kind = KBool, short_tag = ''c'', long_tag = ''copy'', yaml_tag = ''''\<rparr>,
     \<lparr>Name = ''Model'', Kind = KString, short_tag = ''m'', long_tag = ''model'', yaml_tag = ''model''\<rparr>,
     \<lparr>Name = ''ModelContextLength'', Kind = KInt, short_tag = '''', long_tag = ''modelContextLength'', yaml_tag = ''modelContextLength''\<rparr>,
     \<lparr>Name = ''Output'', Kind = KString, short_tag = ''o'', long_tag = ''output'', yaml_tag = ''''\<rparr>,
     \<lparr>Name = ''OutputSession'', Kind = KBool, short_tag = '''', long_tag = ''output-session'', yaml_tag = ''''\<rparr>,
     \<lparr>Name = ''LatestPatterns'', Kind = KString, short_tag = ''n'', long_tag = ''latest'', yaml_tag = ''''\<rparr>,
     \<lparr>Name = ''ChangeDefaultModel'', Kind = KBool, short_tag = ''d'', long_tag = ''changeDefaultModel'', yaml_tag = ''''\<rparr>,
     \<lparr>Name = ''YouTube'', Kind = KString, short_tag = ''y'', long_tag = ''youtube'', yaml_tag = ''''\<rparr>,
     \<lparr>Name = ''YouTubePlaylist'', Kind = KBool, short_tag = '''', long_tag = ''playlist'', yaml_tag = ''''\<rparr>,
     \<lparr>Name = ''YouTubeTranscript'', Kind = KBool, short_tag = '''', long_tag = ''transcript'', yaml_tag = ''''\<rparr>,
     \<lparr>Name = ''YouTubeTranscriptWithTimestamps'', Kind = KBool, short_tag = '''', long_tag = ''transcript-with-timestamps'', yaml_tag = ''''\<rparr>,
     \<lparr>Name = ''YouTubeComments'', Kind = KBool, short_tag = '''', long_tag = ''comments'', yaml_tag = ''''\<rparr>,
     \<lparr>Name = ''YouTubeMetadata'', Kind = KBool, short_tag = '''', long_tag = ''metadata'', yaml_tag = ''''\<rparr>,
     \<lparr>Name = ''Language'', Kind = KString, short_tag = ''g'', long_tag = ''language'', yaml_tag = ''''\<rparr>,
     \<lparr>Name = ''ScrapeURL'', Kind = KString, short_tag = ''u'', long_tag = ''scrape_url'', yaml_tag = ''''\<rparr>,
     \<lparr>Name = ''ScrapeQuestion'', Kind = KString, short_tag = ''q'', long_tag = ''scrape_question'', yaml_tag = ''''\<rparr>,
     \<lparr>Name = ''Seed'', Kind = KInt, short_tag = ''e'', long_tag = ''seed'', yaml_tag = ''seed''\<rparr>,
     \<lparr>Name = ''WipeContext'', Kind = KString, short_tag = ''w'', long_tag = ''wipecontext'', yaml_tag = ''''\<rparr>,
     \<lparr>Name = ''WipeSession'', Kind = KString, short_tag = ''W'', long_tag = ''wipesession'', yaml_tag = ''''\<rparr>,
     \<lparr>Name = ''PrintContext'', Kind = KString, short_tag = '''', long_tag = ''printcontext'', yaml_tag = ''''\<rparr>,
     \<lparr>Name = ''PrintSession'', Kind = KString, short_tag = '''', long_tag = ''printsession'', yaml_tag = ''''\<rparr>,
     \<lparr>Name = ''HtmlReadability'', Kind = KBool, short_tag = '''', long_tag = ''readability'', yaml_tag = ''''\<rparr>,
     \<lparr>Name = ''InputHasVars'', Kind = KBool, short_tag = '''', long_tag = ''input-has-vars'', yaml_tag = ''''\<rparr>,
     \<lparr>Name = ''DryRun'', Kind = KBool, short_tag = '''', long_tag = ''dry-run'', yaml_tag = ''''\<rparr>,
     \<lparr>Name = ''Serve'', Kind = KBool, short_tag = '''', long_tag = ''serve'', yaml_tag = ''''\<rparr>,
     \<lparr>Name = ''ServeOllama'', Kind = KBool, short_tag = '''', long_tag = ''serveOllama'', yaml_tag = ''''\<rparr>,
     \<lparr>Name = ''ServeAddress'', Kind = KString, short_tag = '''', long_tag = ''address'', yaml_tag = ''''\<rparr>,
     \<lparr>Name = ''ServeAPIKey'', Kind = KString, short_tag = '''', long_tag = ''api-key'', yaml_tag = ''''\<rparr>,
     \<lparr>Name = ''Config'', Kind = KString, short_tag = '''', long_tag = ''config'', yaml_tag = ''''\<rparr>,
     \<lparr>Name = ''Version'', Kind = KBool, short_tag = '''', long_tag = ''version'', yaml_tag = ''''\<rparr>,
     \<lparr>Name = ''ListExtensions'', Kind = KBool, short_tag = '''', long_tag = ''listextensions'', yaml_tag = ''''\<rparr>,
     \<lparr>Name = ''AddExtension'', Kind = KString, short_tag = '''', long_tag = ''addextension'', yaml_tag = ''''\<rparr>,
     \<lparr>Name = ''RemoveExtension'', Kind = KString, short_tag = '''', long_tag = ''rmextension'', yaml_tag = ''''\<rparr>,
     \<lparr>Name = ''Strategy'', Kind = KString, short_tag = '''', long_tag = ''strategy'', yaml_tag = ''''\<rparr>,
     \<lparr>Name = ''ListStrategies'', Kind = KBool, short_tag = '''', long_tag = ''liststrategies'', yaml_tag = ''''\<rparr>,
     \<lparr>Name = ''ListVendors'', Kind = KBool, short_tag = '''', long_tag = ''listvendors'', yaml_tag = ''''\<rparr>,
     \<lparr>Name = ''ShellCompleteOutput'', Kind = KBool, short_tag = '''', long_tag = ''shell-complete-list'', yaml_tag = ''''\<rparr>,
     \<lparr>Name = ''Search'', Kind = KBool, short_tag = '''', long_tag = ''search'', yaml_tag = ''''\<rparr>,
     \<lparr>Name = ''SearchLocation'', Kind = KString, short_tag = '''', long_tag = ''search-location'', yaml_tag = ''''\<rparr>,
     \<lparr>Name = ''ImageFile'', Kind = KString, short_tag = '''', long_tag = ''image-file'', yaml_tag = ''''\<rparr>,
     \<lparr>Name = ''ImageSize'', Kind = KString, short_tag = '''', long_tag = ''image-size'', yaml_tag = ''''\<rparr>,
     \<lparr>Name = ''ImageQuality'', Kind = KString, short_tag = '''', long_tag = ''image-quality'', yaml_tag = ''''\<rparr>,
     \<lparr>Name = ''ImageCompression'', Kind = KInt, short_tag = '''', long_tag = ''image-compression'', yaml_tag = ''''\<rparr>,
     \<lparr>Name = ''ImageBackground'', Kind = KString, short_tag = '''', long_tag = ''image-background'', yaml_tag = ''''\<rparr>,
     \<lparr>Name = ''SuppressThink'', Kind = KBool, short_tag = '''', long_tag = ''suppress-think'', yaml_tag = ''suppressThink''\<rparr>,
     \<lparr>Name = ''ThinkStartTag'', Kind = KString, short_tag = '''', long_tag = ''think-start-tag'', yaml_tag = ''thinkStartTag''\<rparr>,
     \<lparr>Name = ''ThinkEndTag'', Kind = KString, short_tag = '''', long_tag = ''think-end-tag'', yaml_tag = ''thinkEndTag''\<rparr>,
     \<lparr>Name = ''DisableResponsesAPI'', Kind = KBool, short_tag = '''', long_tag = ''disable-responses-api'', yaml_tag = ''disableResponsesAPI''\<rparr>,
     \<lparr>Name = ''Voice'', Kind = KString, short_tag = '''', long_tag = ''voice'', yaml_tag = ''voice''\<rparr>,
     \<lparr>Name = ''ListGeminiVoices'', Kind = KBool, short_tag = '''', long_tag = ''list-gemini-voices'', yaml_tag = ''''\<rparr>]"

type_synonym Flags = "rvalue list"

text \<open>The zero value of a field type, and \<^verbatim>\<open>&Flags{}\<close>.\<close>

fun zero_of :: "kind \<Rightarrow> rvalue" where
  "zero_of KString = VString []"
| "zero_of KInt = VInt 0"
| "zero_of KFloat64 = VFloat 0"
| "zero_of KBool = VBool False"
| "zero_of KMap = VMap []"
| "zero_of KSlice = VSlice []"

definition zero_Flags :: Flags where
  "zero_Flags = map (\<lambda>f. zero_of (Kind f)) Flags_fields"

text \<open>
  Go's static typing: a value of type \<^verbatim>\<open>Flags\<close> has one value per declared field,
  each of the declared type.
\<close>

definition wt_Flags :: "Flags \<Rightarrow> bool" where
  "wt_Flags fl = (map kind_of fl = map Kind Flags_fields)"

text \<open>The two fields \<^verbatim>\<open>Init\<close> reads and writes by name.\<close>

definition Message_idx :: nat where
  "Message_idx = 17"

definition Config_idx :: nat where
  "Config_idx = 46"

definition get_string :: "Flags \<Rightarrow> nat \<Rightarrow> string" where
  "get_string fl i = (case fl ! i of VString s \<Rightarrow> s | _ \<Rightarrow> [])"

definition get_Message :: "Flags \<Rightarrow> string" where
  "get_Message fl = get_string fl Message_idx"

definition set_Message :: "Flags \<Rightarrow> string \<Rightarrow> Flags" where
  "set_Message fl s = fl[Message_idx := VString s]"

definition get_Config :: "Flags \<Rightarrow> string" where
  "get_Config fl = get_string fl Config_idx"

definition set_Config :: "Flags \<Rightarrow> string \<Rightarrow> Flags" where
  "set_Config fl s = fl[Config_idx := VString s]"

section \<open>The argument pre-scan\<close>

text \<open>\<^verbatim>\<open>strings.HasPrefix\<close>, \<^verbatim>\<open>strings.TrimPrefix\<close> and \<^verbatim>\<open>strings.Index\<close>
  (for a one-byte needle; \<open>-1\<close> when it does not occur).\<close>

definition HasPrefix :: "string \<Rightarrow> string \<Rightarrow> bool" where
  "HasPrefix s p = (take (length p) s = p)"

definition TrimPrefix :: "string \<Rightarrow> string \<Rightarrow> string" where
  "TrimPrefix s p = (if HasPrefix s p then drop (length p) s else s)"

definition Index :: "string \<Rightarrow> char \<Rightarrow> int" where
  "Index s c = (if c \<in> set s then int (length (takeWhile (\<lambda>x. x \<noteq> c) s)) else - 1)"

text \<open>\<^verbatim>\<open>extractFlag\<close> (lines 211-225). \<^verbatim>\<open>flag[:i]\<close> is \<open>take (nat i) flag\<close>.\<close>

definition extractFlag :: "string \<Rightarrow> string" where
  "extractFlag arg =
     (if HasPrefix arg ''--'' then
        (let flag = TrimPrefix arg ''--''; i = Index flag (CHR ''='')
         in if i > 0 then take (nat i) flag else flag)
      else if HasPrefix arg ''-'' \<and> length arg > 1 then
        (let flag = TrimPrefix arg ''-''; i = Index flag (CHR ''='')
         in if i > 0 then take (nat i) flag else flag)
      else [])"

text \<open>
  The map from flag names to yaml tags (lines 109-126): for every field with a yaml tag,
  the long name is entered first, then the short name; a later entry overwrites an
  earlier one with the same name.
\<close>

definition add_field :: "StructField \<Rightarrow> (string \<rightharpoonup> string) \<Rightarrow> (string \<rightharpoonup> string)" where
  "add_field field m =
     (if yaml_tag field \<noteq> [] then
        (let m1 = (if long_tag field \<noteq> [] then m(long_tag field \<mapsto> yaml_tag field) else m)
         in (if short_tag field \<noteq> [] then m1(short_tag field \<mapsto> yaml_tag field) else m1))
      else m)"

definition flagToYamlTag :: "string \<rightharpoonup> string" where
  "flagToYamlTag = fold add_field Flags_fields Map.empty"

text \<open>The scan of the raw tokens (lines 129-138); \<^verbatim>\<open>usedFlags\<close> is the set of the
  keys that map to \<^verbatim>\<open>true\<close>.\<close>

definition scan_arg :: "string \<Rightarrow> string set \<Rightarrow> string set" where
  "scan_arg arg usedFlags =
     (let flag = extractFlag arg in
      if flag \<noteq> [] then
        (case flagToYamlTag flag of
           Some yamlTag \<Rightarrow> insert yamlTag usedFlags
         | None \<Rightarrow> usedFlags)
      else usedFlags)"

definition scan_args :: "string list \<Rightarrow> string set" where
  "scan_args yamlArgsScan = fold scan_arg yamlArgsScan {}"

section \<open>Errors, and what the code does not own\<close>

text \<open>
  Every error return of the code is a value. The constructors follow the messages:
  the parser's own error (line 144), \<^verbatim>\<open>invalid config path\<close>,
  \<^verbatim>\<open>config file not found\<close>, \<^verbatim>\<open>error reading config file\<close>,
  \<^verbatim>\<open>error parsing config file\<close>, \<^verbatim>\<open>cannot convert string ... to ...\<close>,
  \<^verbatim>\<open>unsupported conversion from ... to ...\<close>,
  \<^verbatim>\<open>error reading piped message from stdin\<close>, and the nil dereference of
  \<^verbatim>\<open>info.Mode()\<close> (line 194) when \<^verbatim>\<open>os.Stdin.Stat()\<close> fails.
\<close>

datatype error =
    ParseError
  | InvalidConfigPath
  | ConfigNotFound string
  | ConfigReadError
  | ConfigParseError
  | CannotConvert string kind
  | UnsupportedConversion kind kind
  | IOError
  | NilDereference

text \<open>
  Third-party and standard-library functions whose code is not part of the repository
  are parameters: the go-flags parser (the parsed struct and the leftover positional
  tokens, or an error), \<^verbatim>\<open>yaml.Unmarshal(data, config)\<close> (the struct it was given,
  filled in, or an error), \<^verbatim>\<open>strconv.ParseFloat(str, 64)\<close>, and the result of
  converting to \<^verbatim>\<open>int64\<close> a float that \<^verbatim>\<open>int64\<close> cannot represent, which the
  language leaves to the implementation.
\<close>

record library =
  Parse :: "string list \<Rightarrow> (Flags \<times> string list) option"
  Unmarshal :: "string \<Rightarrow> Flags \<Rightarrow> Flags option"
  ParseFloat :: "string \<Rightarrow> float64 option"
  int64_unrepresentable :: "float64 \<Rightarrow> int"

text \<open>
  The process environment of one run. \<^verbatim>\<open>util.GetDefaultConfigPath\<close> and
  \<^verbatim>\<open>util.GetAbsolutePath\<close> are helpers of the repository whose code is not in
  the given sources; \<^verbatim>\<open>Init\<close> only looks at what they return: a path and whether
  an error came with it, and an absolute path or an error. \<^verbatim>\<open>os.ReadFile\<close> gives the
  bytes, a not-exist error, or another error. Standard input is the bytes still to come
  and the error the stream ends with.
\<close>

datatype file_result = NotExist | ReadError | Data string

datatype read_error = EOF | ReadFailure

record Reader =
  pending :: string
  ending :: read_error

record world =
  Args :: "string list"
  GetDefaultConfigPath :: "string \<times> bool"
  GetAbsolutePath :: "string \<Rightarrow> string option"
  ReadFile :: "string \<Rightarrow> file_result"
  Stdin_ModeCharDevice :: "bool option"
  Stdin :: Reader

section \<open>The type-coercing assigner\<close>

text \<open>\<^verbatim>\<open>strconv.ParseBool\<close> of the standard library: exactly twelve spellings.\<close>

definition ParseBool :: "string \<Rightarrow> bool option" where
  "ParseBool str =
     (if str \<in> set [''1'', ''t'', ''T'', ''TRUE'', ''true'', ''True''] then Some True
      else if str \<in> set [''0'', ''f'', ''F'', ''FALSE'', ''false'', ''False''] then Some False
      else None)"

text \<open>
  \<^verbatim>\<open>strconv.ParseInt(str, 10, 64)\<close> of the standard library: an optional sign, then
  one or more decimal digits (no underscores in base 10), and the value within
  \<^verbatim>\<open>int64\<close>; everything else is an error.
\<close>

definition is_digit :: "char \<Rightarrow> bool" where
  "is_digit c = (c \<in> set ''0123456789'')"

definition digits_val :: "string \<Rightarrow> int" where
  "digits_val ds = foldl (\<lambda>n c. 10 * n + (of_char c - 48)) 0 ds"

definition ParseInt :: "string \<Rightarrow> int option" where
  "ParseInt s =
     (case s of
        [] \<Rightarrow> None
      | c # cs \<Rightarrow>
          (let neg = (c = CHR ''-'');
               ds = (if c = CHR ''+'' \<or> c = CHR ''-'' then cs else s)
           in if ds = [] \<or> \<not> list_all is_digit ds then None
              else (let un = digits_val ds
                    in if \<not> neg \<and> un \<ge> 2 ^ 63 then None
                       else if neg \<and> un > 2 ^ 63 then None
                       else Some (if neg then - un else un))))"

text \<open>
  The conversion \<^verbatim>\<open>int64(val)\<close> of a \<^verbatim>\<open>float64\<close>: the value with its fraction
  discarded. The fields of the bit pattern are the sign (bit 63), the biased exponent
  (bits 62-52) and the fraction (bits 51-0); a normal number is
  \<open>(2^52 + fraction) * 2^(exponent - 1075)\<close>, a subnormal one is below 1.
\<close>

definition float64_trunc :: "float64 \<Rightarrow> int option" where
  "float64_trunc x =
     (let e = (unat x div 2 ^ 52) mod 2 ^ 11;
          m = unat x mod 2 ^ 52;
          mag = (if e = 0 then 0
                 else if e \<ge> 1075 then (2 ^ 52 + m) * 2 ^ (e - 1075)
                 else (2 ^ 52 + m) div 2 ^ (1075 - e))
      in if e = 2047 then None
         else Some (if unat x div 2 ^ 63 = 1 then - int mag else int mag))"

definition int64_of_float64 :: "library \<Rightarrow> float64 \<Rightarrow> int" where
  "int64_of_float64 lib x =
     (case float64_trunc x of
        Some n \<Rightarrow> if - (2 ^ 63) \<le> n \<and> n < 2 ^ 63 then n else int64_unrepresentable lib x
      | None \<Rightarrow> int64_unrepresentable lib x)"

text \<open>
  \<^verbatim>\<open>assignWithConversion\<close> (lines 227-258). The target field is mutated through
  reflection; the model returns its new value, or the error with the target unchanged.
\<close>

definition assignWithConversion :: "library \<Rightarrow> rvalue \<Rightarrow> rvalue \<Rightarrow> error + rvalue" where
  "assignWithConversion lib targetField sourceField =
     (case sourceField of
        VString str \<Rightarrow>
          (case kind_of targetField of
             KInt \<Rightarrow>
               (case ParseFloat lib str of
                  Some val \<Rightarrow> Inr (VInt (int64_of_float64 lib val))
                | None \<Rightarrow>
                    (case ParseInt str of
                       Some val \<Rightarrow> Inr (VInt val)
                     | None \<Rightarrow> Inl (CannotConvert str KInt)))
           | KFloat64 \<Rightarrow>
               (case ParseFloat lib str of
                  Some val \<Rightarrow> Inr (VFloat val)
                | None \<Rightarrow> Inl (CannotConvert str KFloat64))
           | KBool \<Rightarrow>
               (case ParseBool str of
                  Some val \<Rightarrow> Inr (VBool val)
                | None \<Rightarrow> Inl (CannotConvert str KBool))
           | k \<Rightarrow> Inl (CannotConvert str k))
      | src \<Rightarrow> Inl (UnsupportedConversion (kind_of src) (kind_of targetField)))"

section \<open>The config-file loader and the precedence merge\<close>

text \<open>\<^verbatim>\<open>loadYAMLConfig\<close> (lines 260-283); the decoder is handed \<^verbatim>\<open>&Flags{}\<close>.\<close>

definition loadYAMLConfig :: "library \<Rightarrow> world \<Rightarrow> string \<Rightarrow> error + Flags" where
  "loadYAMLConfig lib w configPath =
     (case GetAbsolutePath w configPath of
        None \<Rightarrow> Inl InvalidConfigPath
      | Some absPath \<Rightarrow>
          (case ReadFile w absPath of
             NotExist \<Rightarrow> Inl (ConfigNotFound absPath)
           | ReadError \<Rightarrow> Inl ConfigReadError
           | Data data \<Rightarrow>
               (case Unmarshal lib data zero_Flags of
                  None \<Rightarrow> Inl ConfigParseError
                | Some config \<Rightarrow> Inr config)))"

text \<open>
  \<^verbatim>\<open>CanSet\<close> holds for an exported field of an addressable struct: the name starts
  with an upper-case letter.
\<close>

definition CanSet :: "StructField \<Rightarrow> bool" where
  "CanSet field =
     (case Name field of [] \<Rightarrow> False | c # cs \<Rightarrow> (65::nat) \<le> of_char c \<and> of_char c \<le> (90::nat))"

text \<open>
  One turn of the loop of lines 170-189, as the new value of \<^verbatim>\<open>flagField\<close>. Two
  fields have different \<^verbatim>\<open>reflect.Type\<close>s exactly when their kinds differ, since the
  six field types of \<^verbatim>\<open>Flags\<close> have six different kinds. A failed conversion is
  logged and the field keeps its value (\<^verbatim>\<open>continue\<close>).
\<close>

definition merge_field ::
  "library \<Rightarrow> string set \<Rightarrow> StructField \<Rightarrow> rvalue \<Rightarrow> rvalue \<Rightarrow> rvalue" where
  "merge_field lib usedFlags field flagField yamlField =
     (if yaml_tag field \<noteq> [] then
        (if yaml_tag field \<notin> usedFlags then
           (if CanSet field then
              (if kind_of yamlField \<noteq> kind_of flagField then
                 (case assignWithConversion lib flagField yamlField of
                    Inl err \<Rightarrow> flagField
                  | Inr v \<Rightarrow> v)
               else yamlField)
            else flagField)
         else flagField)
      else flagField)"

definition merge :: "library \<Rightarrow> string set \<Rightarrow> Flags \<Rightarrow> Flags \<Rightarrow> Flags" where
  "merge lib usedFlags ret yamlFlags =
     fold (\<lambda>i fl. fl[i := merge_field lib usedFlags (Flags_fields ! i) (fl ! i) (yamlFlags ! i)])
       [0..<length Flags_fields] ret"

text \<open>Lines 149-156: the default config path is taken only when none was given.\<close>

definition default_config :: "world \<Rightarrow> Flags \<Rightarrow> Flags" where
  "default_config w ret =
     (if get_Config ret = [] then
        (case GetDefaultConfigPath w of
           (defaultConfigPath, err) \<Rightarrow>
             if \<not> err \<and> defaultConfigPath \<noteq> [] then set_Config ret defaultConfigPath else ret)
      else ret)"

text \<open>Lines 159-190.\<close>

definition load_and_merge :: "library \<Rightarrow> world \<Rightarrow> string set \<Rightarrow> Flags \<Rightarrow> error + Flags" where
  "load_and_merge lib w usedFlags ret =
     (if get_Config ret \<noteq> [] then
        (case loadYAMLConfig lib w (get_Config ret) of
           Inl err \<Rightarrow> Inl err
         | Inr yamlFlags \<Rightarrow> Inr (merge lib usedFlags ret yamlFlags))
      else Inr ret)"

section \<open>The input assembler\<close>

text \<open>\<^verbatim>\<open>AppendMessage\<close> (lines 534-541).\<close>

definition AppendMessage :: "string \<Rightarrow> string \<Rightarrow> string" where
  "AppendMessage message newMessage =
     (if message \<noteq> [] then message @ [CHR 0x0A] @ newMessage else newMessage)"

text \<open>
  \<^verbatim>\<open>bufio.Reader.ReadString(delim)\<close>: the data up to and including the first
  delimiter; when the stream ends before one is found, the data read so far together
  with the error.
\<close>

definition ReadString :: "Reader \<Rightarrow> char \<Rightarrow> string \<times> read_error option \<times> Reader" where
  "ReadString r delim =
     (if delim \<in> set (pending r) then
        (let line = takeWhile (\<lambda>c. c \<noteq> delim) (pending r) @ [delim]
         in (line, None, r\<lparr>pending := drop (length line) (pending r)\<rparr>))
      else (pending r, Some (ending r), r\<lparr>pending := []\<rparr>))"

text \<open>\<^verbatim>\<open>readStdin\<close> (lines 286-303): the loop, with the string builder as accumulator.\<close>

function readStdin_loop :: "Reader \<Rightarrow> string \<Rightarrow> error + string" where
  "readStdin_loop reader sb =
     (case ReadString reader (CHR 0x0A) of
        (line, readErr, reader') \<Rightarrow>
          (case readErr of
             Some e \<Rightarrow> if e = EOF then Inr (sb @ line) else Inl IOError
           | None \<Rightarrow> readStdin_loop reader' (sb @ line)))"
  by pat_completeness auto
termination
  by (relation "measure (\<lambda>(reader, sb). length (pending reader))")
     (auto simp: ReadString_def Let_def dest!: length_pos_if_in_set split: if_splits)

declare readStdin_loop.simps [simp del]

definition readStdin :: "Reader \<Rightarrow> error + string" where
  "readStdin reader = readStdin_loop reader []"

text \<open>Lines 192-208.\<close>

definition assemble :: "world \<Rightarrow> Flags \<Rightarrow> string list \<Rightarrow> error + Flags" where
  "assemble w ret args =
     (case Stdin_ModeCharDevice w of
        None \<Rightarrow> Inl NilDereference
      | Some charDevice \<Rightarrow>
          (let pipedToStdin = \<not> charDevice;
               ret1 = (if length args > 0
                       then set_Message ret (AppendMessage (get_Message ret) (args ! (length args - 1)))
                       else ret)
           in if pipedToStdin then
                (case readStdin (Stdin w) of
                   Inl err \<Rightarrow> Inl err
                 | Inr pipedMessage \<Rightarrow>
                     Inr (set_Message ret1 (AppendMessage (get_Message ret1) pipedMessage)))
              else Inr ret1))"

section \<open>\<^verbatim>\<open>Init\<close>\<close>

text \<open>
  \<^verbatim>\<open>Init\<close> (lines 103-209). The Go function returns the struct and the error; a
  caller that sees an error does not use the struct, so the model returns one or the other.
\<close>

definition Init :: "library \<Rightarrow> world \<Rightarrow> error + Flags" where
  "Init lib w =
     (let usedFlags = scan_args (Args w)
      in case Parse lib (Args w) of
           None \<Rightarrow> Inl ParseError
         | Some (ret, args) \<Rightarrow>
             (case load_and_merge lib w usedFlags (default_config w ret) of
                Inl err \<Rightarrow> Inl err
              | Inr merged \<Rightarrow> assemble w merged args))"

section \<open>The vocabulary of the claims\<close>

text \<open>
  A token names an option when it is the name behind one or two dashes, alone or followed
  by \<open>=\<close> and a value: \<^verbatim>\<open>-t\<close>, \<^verbatim>\<open>--temperature\<close>, \<^verbatim>\<open>-t=0.2\<close>,
  \<^verbatim>\<open>--temperature=0.2\<close>. An option is named on the command line when some raw
  token names its short or its long name.
\<close>

definition names_flag :: "string \<Rightarrow> string \<Rightarrow> bool" where
  "names_flag n arg =
     (n \<noteq> [] \<and>
      (arg = ''--'' @ n \<or> arg = ''-'' @ n \<or>
       HasPrefix arg (''--'' @ n @ ''='') \<or> HasPrefix arg (''-'' @ n @ ''='')))"

definition option_named :: "StructField \<Rightarrow> string \<Rightarrow> bool" where
  "option_named field arg = (names_flag (short_tag field) arg \<or> names_flag (long_tag field) arg)"

definition named_on_cli :: "StructField \<Rightarrow> string list \<Rightarrow> bool" where
  "named_on_cli field args = list_ex (option_named field) args"

text \<open>
  The extraction as the specification words it: strip the dashes, keep what stands before
  the first \<open>=\<close>.
\<close>

definition spec_extractFlag :: "string \<Rightarrow> string" where
  "spec_extractFlag arg =
     (if HasPrefix arg ''--'' then takeWhile (\<lambda>c. c \<noteq> CHR ''='') (drop 2 arg)
      else if HasPrefix arg ''-'' \<and> length arg > 1 then takeWhile (\<lambda>c. c \<noteq> CHR ''='') (drop 1 arg)
      else [])"

text \<open>What is left of a flag-shaped token after its dashes (empty for any other token).\<close>

definition remainder :: "string \<Rightarrow> string" where
  "remainder arg =
     (if HasPrefix arg ''--'' then drop 2 arg
      else if HasPrefix arg ''-'' \<and> length arg > 1 then drop 1 arg
      else [])"

text \<open>
  A config file does not mention field \<open>i\<close> when decoding it leaves that field of the
  struct as it was, whatever the struct held.
\<close>

definition key_absent :: "library \<Rightarrow> string \<Rightarrow> nat \<Rightarrow> bool" where
  "key_absent lib data i =
     (\<forall>config config'. Unmarshal lib data config = Some config' \<longrightarrow> config' ! i = config ! i)"

text \<open>A field of the resolved options, when resolution succeeded.\<close>

definition resolved_field :: "error + Flags \<Rightarrow> nat \<Rightarrow> rvalue option" where
  "resolved_field r i = (case r of Inl err \<Rightarrow> None | Inr fl \<Rightarrow> Some (fl ! i))"

text \<open>The value of \<^verbatim>\<open>ret.Config\<close> at line 159: the path of the one file a run may read.\<close>

definition config_path :: "library \<Rightarrow> world \<Rightarrow> string" where
  "config_path lib w =
     (case Parse lib (Args w) of
        None \<Rightarrow> []
      | Some (ret, args) \<Rightarrow> get_Config (default_config w ret))"

section \<open>Scenarios\<close>

text \<open>
  Concrete runs for the scenarios of the specification. The parsed struct carries the
  \<^verbatim>\<open>default\<close> tags of the schema (temperature 0.7, top P 0.9, ...); the parser, the
  YAML decoder and \<^verbatim>\<open>ParseFloat\<close> are given by their results on the inputs used
  here. The floats are 0.7 = \<open>0x3FE6666666666666\<close>, 0.9 = \<open>0x3FECCCCCCCCCCCCD\<close>,
  0.2 = \<open>0x3FC999999999999A\<close>, 42.9 = \<open>0x4045733333333333\<close>, 7 = \<open>0x401C000000000000\<close>.
\<close>

definition example_defaults :: Flags where
  "example_defaults =
     zero_Flags[6 := VFloat 0x3FE6666666666666, 7 := VFloat 0x3FECCCCCCCCCCCCD,
       23 := VString ''0'', 44 := VString '':8080'', 63 := VString ''<think>'',
       64 := VString ''</think>'', 66 := VString ''Kore'']"

definition example_Parse :: "string list \<Rightarrow> (Flags \<times> string list) option" where
  "example_Parse args =
     (if args = [] then Some (example_defaults, [])
      else if args = [''-t'', ''0.2'']
        then Some (example_defaults[6 := VFloat 0x3FC999999999999A], [])
      else if args = [''--model'', ''gpt-4'', ''hello'']
        then Some (example_defaults[19 := VString ''gpt-4''], [''hello''])
      else if args = [''-sr'']
        then Some (example_defaults[8 := VBool True, 10 := VBool True], [])
      else if args = [''--config'', ''/tmp/missing.yaml'']
        then Some (example_defaults[46 := VString ''/tmp/missing.yaml''], [])
      else if args = [''--config'', ''/tmp/broken.yaml'']
        then Some (example_defaults[46 := VString ''/tmp/broken.yaml''], [])
      else None)"

definition example_Unmarshal :: "string \<Rightarrow> Flags \<Rightarrow> Flags option" where
  "example_Unmarshal data config =
     (if data = ''temperature: 0.9'' then Some (config[6 := VFloat 0x3FECCCCCCCCCCCCD])
      else if data = ''model: gpt-4'' then Some (config[19 := VString ''gpt-4''])
      else None)"

definition example_ParseFloat :: "string \<Rightarrow> float64 option" where
  "example_ParseFloat str =
     (if str = ''42.9'' then Some 0x4045733333333333
      else if str = ''7'' then Some 0x401C000000000000
      else None)"

definition example_library :: library where
  "example_library =
     \<lparr>Parse = example_Parse, Unmarshal = example_Unmarshal, ParseFloat = example_ParseFloat,
      int64_unrepresentable = (\<lambda>x. - (2 ^ 63))\<rparr>"

text \<open>
  A run with the given tokens, the given file at the default config location (or none),
  standard input a terminal or a pipe, and the bytes waiting on it. Two more paths exist
  for the explicit \<^verbatim>\<open>--config\<close> scenarios: one names no file, one a file that is
  not YAML.
\<close>

definition example_world :: "string list \<Rightarrow> file_result \<Rightarrow> bool \<Rightarrow> string \<Rightarrow> world" where
  "example_world args file charDevice input =
     \<lparr>Args = args,
      GetDefaultConfigPath =
        (if file = NotExist then ([], False) else (''/home/u/.config/fabric/config.yaml'', False)),
      GetAbsolutePath = Some,
      ReadFile = (\<lambda>path. if path = ''/home/u/.config/fabric/config.yaml'' then file
                         else if path = ''/tmp/broken.yaml'' then Data ''temperature: [''
                         else NotExist),
      Stdin_ModeCharDevice = Some charDevice,
      Stdin = \<lparr>pending = input, ending = EOF\<rparr>\<rparr>"

text \<open>
  The same run on a machine where only the default config file can be resolved and read.
\<close>

definition other_files :: "world \<Rightarrow> world" where
  "other_files w =
     w\<lparr>GetAbsolutePath :=
         (\<lambda>path. if path = ''/home/u/.config/fabric/config.yaml'' then GetAbsolutePath w path
                  else None),
       ReadFile :=
         (\<lambda>path. if path = ''/home/u/.config/fabric/config.yaml'' then ReadFile w path
                  else ReadError)\<rparr>"

section \<open>Lemmas\<close>

subsection \<open>The schema and the reflection loop\<close>

lemma length_Flags_fields: "length Flags_fields = 68"
  by (simp add: Flags_fields_def)

lemma fold_update_length:
  "length (fold (\<lambda>i fl. fl[i := h i fl]) is xs) = length xs"
  by (induction "is" arbitrary: xs) auto

lemma fold_update_nth:
  "fold (\<lambda>i fl. fl[i := g i (fl ! i)]) [a..<b] xs ! k =
     (if a \<le> k \<and> k < b \<and> k < length xs then g k (xs ! k) else xs ! k)"
proof (induction b arbitrary: k)
  case 0
  show ?case by simp
next
  case (Suc b)
  let ?F = "fold (\<lambda>i fl. fl[i := g i (fl ! i)]) [a..<b] xs"
  show ?case
  proof (cases "a \<le> b")
    case True
    then have "fold (\<lambda>i fl. fl[i := g i (fl ! i)]) [a..<Suc b] xs = ?F[b := g b (?F ! b)]"
      by simp
    moreover have "?F ! b = xs ! b" using Suc [of b] by simp
    moreover have "length ?F = length xs" by (rule fold_update_length)
    ultimately show ?thesis using Suc [of k] True
      by (cases "k = b") (auto simp del: upt_Suc simp: list_update_beyond)
  next
    case False
    then show ?thesis by auto
  qed
qed

lemma merge_length: "length (merge lib usedFlags ret yamlFlags) = length ret"
  unfolding merge_def by (rule fold_update_length)

lemma merge_nth:
  "merge lib usedFlags ret yamlFlags ! i =
     (if i < length Flags_fields \<and> i < length ret
      then merge_field lib usedFlags (Flags_fields ! i) (ret ! i) (yamlFlags ! i)
      else ret ! i)"
  unfolding merge_def
  using fold_update_nth [of "\<lambda>i v. merge_field lib usedFlags (Flags_fields ! i) v (yamlFlags ! i)" 0 "length Flags_fields" ret i]
  by simp

lemma split_at_delim:
  "c \<in> set xs \<Longrightarrow>
   takeWhile (\<lambda>x. x \<noteq> c) xs @ c # drop (Suc (length (takeWhile (\<lambda>x. x \<noteq> c) xs))) xs = xs"
  by (induction xs) auto

lemma readStdin_loop_eq:
  "readStdin_loop r sb = (if ending r = EOF then Inr (sb @ pending r) else Inl IOError)"
proof (induction r sb rule: readStdin_loop.induct)
  case (1 reader sb)
  show ?case
  proof (cases "CHR 0x0A \<in> set (pending reader)")
    case True
    let ?line = "takeWhile (\<lambda>c. c \<noteq> CHR 0x0A) (pending reader) @ [CHR 0x0A]"
    let ?r' = "reader\<lparr>pending := drop (length ?line) (pending reader)\<rparr>"
    have rs: "ReadString reader (CHR 0x0A) = (?line, None, ?r')"
      using True by (simp add: ReadString_def Let_def)
    have whole: "?line @ pending ?r' = pending reader"
      using split_at_delim [OF True] by simp
    have "readStdin_loop reader sb = readStdin_loop ?r' (sb @ ?line)"
      by (subst readStdin_loop.simps) (simp only: rs prod.case option.case)
    also have "\<dots> = (if ending ?r' = EOF then Inr ((sb @ ?line) @ pending ?r') else Inl IOError)"
      using "1.IH" [OF rs [symmetric] refl refl] by simp
    finally show ?thesis using whole by (simp only: append_assoc) simp
  next
    case False
    then show ?thesis
      by (subst readStdin_loop.simps) (simp add: ReadString_def)
  qed
qed

subsection \<open>The extraction of a flag name\<close>

lemma HasPrefix_iff: "HasPrefix s p \<longleftrightarrow> (\<exists>t. s = p @ t)"
  unfolding HasPrefix_def by (metis append_eq_conv_conj)

lemma takeWhile_upto: "c \<notin> set n \<Longrightarrow> takeWhile (\<lambda>x. x \<noteq> c) (n @ c # v) = n"
  by (induction n) auto

lemma takeWhile_all: "c \<notin> set n \<Longrightarrow> takeWhile (\<lambda>x. x \<noteq> c) n = n"
  by (induction n) auto

lemma take_takeWhile_length: "take (length (takeWhile P xs)) xs = takeWhile P xs"
  by (induction xs) auto

lemma cut_before_eq:
  "(let i = Index flag c in if i > 0 then take (nat i) flag else flag) =
     (if HasPrefix flag [c] then flag else takeWhile (\<lambda>x. x \<noteq> c) flag)"
proof (cases flag)
  case Nil
  then show ?thesis by (simp add: Index_def HasPrefix_def)
next
  case (Cons x xs)
  show ?thesis
  proof (cases "x = c")
    case True
    with Cons show ?thesis by (simp add: Index_def HasPrefix_def)
  next
    case False
    show ?thesis
    proof (cases "c \<in> set xs")
      case True
      have "nat (1 + int (length (takeWhile (\<lambda>x. x \<noteq> c) xs))) = Suc (length (takeWhile (\<lambda>x. x \<noteq> c) xs))"
        by simp
      with Cons False True show ?thesis
        by (simp add: Index_def HasPrefix_def Let_def take_takeWhile_length)
    next
      case False
      with Cons \<open>x \<noteq> c\<close> show ?thesis
        by (simp add: Index_def HasPrefix_def takeWhile_all)
    qed
  qed
qed

text \<open>What the function computes, in one equation: the remainder after the dashes, cut
  before its first \<open>=\<close> unless that \<open>=\<close> comes first.\<close>

lemma extractFlag_eq:
  "extractFlag arg =
     (if HasPrefix (remainder arg) ''='' then remainder arg
      else takeWhile (\<lambda>c. c \<noteq> CHR ''='') (remainder arg))"
proof -
  have "extractFlag arg =
      (let flag = remainder arg; i = Index flag (CHR ''='')
       in if i > 0 then take (nat i) flag else flag)"
    by (simp add: extractFlag_def remainder_def TrimPrefix_def Let_def numeral_2_eq_2)
  then show ?thesis
    using cut_before_eq [of "remainder arg" "CHR ''=''"] by (simp add: Let_def)
qed

lemma remainder_split:
  assumes "remainder arg \<noteq> []"
  shows "arg = ''--'' @ remainder arg \<or> arg = ''-'' @ remainder arg"
proof (cases "HasPrefix arg ''--''")
  case True
  then have "arg = ''--'' @ drop 2 arg"
    unfolding HasPrefix_def by (metis append_take_drop_id length_Cons list.size(3) numeral_2_eq_2)
  with True show ?thesis by (simp add: remainder_def)
next
  case False
  with assms have p: "HasPrefix arg ''-''" and r: "remainder arg = drop 1 arg"
    by (auto simp: remainder_def split: if_splits)
  from p have "arg = ''-'' @ drop 1 arg"
    unfolding HasPrefix_def by (metis append_take_drop_id length_Cons list.size(3) One_nat_def)
  with r show ?thesis by simp
qed

lemma extractFlag_names:
  assumes "extractFlag arg = n" and "n \<noteq> []"
  shows "names_flag n arg"
proof -
  let ?flag = "remainder arg"
  have n: "n = (if HasPrefix ?flag ''='' then ?flag else takeWhile (\<lambda>c. c \<noteq> CHR ''='') ?flag)"
    using assms(1) by (simp add: extractFlag_eq)
  have "?flag \<noteq> []" using n assms(2) by (auto split: if_splits)
  then have arg: "arg = ''--'' @ ?flag \<or> arg = ''-'' @ ?flag"
    by (rule remainder_split)
  have "n = ?flag \<or> (\<exists>v. ?flag = n @ CHR ''='' # v)"
  proof (cases "HasPrefix ?flag ''='' \<or> CHR ''='' \<notin> set ?flag")
    case True
    then show ?thesis using n by (auto simp: takeWhile_all)
  next
    case False
    then have "?flag = takeWhile (\<lambda>c. c \<noteq> CHR ''='') ?flag @ CHR ''='' #
        drop (Suc (length (takeWhile (\<lambda>c. c \<noteq> CHR ''='') ?flag))) ?flag"
      using split_at_delim [of "CHR ''=''" ?flag] by simp
    with False n show ?thesis by metis
  qed
  then show ?thesis
    using arg assms(2) unfolding names_flag_def HasPrefix_iff by auto
qed

lemma names_extractFlag:
  assumes "names_flag n arg" and "CHR ''='' \<notin> set n" and "hd n \<noteq> CHR ''-''"
  shows "extractFlag arg = n"
proof -
  from assms(1) have ne: "n \<noteq> []" by (simp add: names_flag_def)
  then obtain x xs where n: "n = x # xs" by (cases n) auto
  with assms have x: "x \<noteq> CHR ''-''" "x \<noteq> CHR ''=''" by auto
  have tw: "takeWhile (\<lambda>c. c \<noteq> CHR ''='') n = n"
    using assms(2) by (rule takeWhile_all)
  from assms(1) consider
      "arg = ''--'' @ n" | "arg = ''-'' @ n"
    | v where "arg = ''--'' @ n @ ''='' @ v" | v where "arg = ''-'' @ n @ ''='' @ v"
    unfolding names_flag_def HasPrefix_iff by auto
  then show ?thesis
  proof cases
    case 1
    then have "remainder arg = n" by (simp add: remainder_def HasPrefix_def)
    then show ?thesis using tw x n by (simp add: extractFlag_eq HasPrefix_def)
  next
    case 2
    then have "remainder arg = n" using x n by (simp add: remainder_def HasPrefix_def)
    then show ?thesis using tw x n by (simp add: extractFlag_eq HasPrefix_def)
  next
    case 3
    then have "remainder arg = n @ CHR ''='' # v" by (simp add: remainder_def HasPrefix_def)
    then show ?thesis using takeWhile_upto [OF assms(2), of v] x n
      by (simp add: extractFlag_eq HasPrefix_def)
  next
    case 4
    then have "remainder arg = n @ CHR ''='' # v" using x n by (simp add: remainder_def HasPrefix_def)
    then show ?thesis using takeWhile_upto [OF assms(2), of v] x n
      by (simp add: extractFlag_eq HasPrefix_def)
  qed
qed

subsection \<open>Reading standard input\<close>

lemma readStdin_eq: "readStdin r = (if ending r = EOF then Inr (pending r) else Inl IOError)"
  by (simp add: readStdin_def readStdin_loop_eq)

subsection \<open>The merge, field by field\<close>

lemma merge_no_key:
  "yaml_tag (Flags_fields ! i) = [] \<Longrightarrow> merge lib usedFlags ret yamlFlags ! i = ret ! i"
  by (simp add: merge_nth merge_field_def)

lemma example_defaults_Config: "get_Config example_defaults = []"
  by (simp add: get_Config_def get_string_def Config_idx_def example_defaults_def
      zero_Flags_def Flags_fields_def)

subsection \<open>The name map and the scan\<close>

lemma yaml_fields:
  "filter (\<lambda>f. yaml_tag f \<noteq> []) Flags_fields = [
      \<lparr>Name = ''Pattern'', Kind = KString, short_tag = ''p'', long_tag = ''pattern'', yaml_tag = ''pattern''\<rparr>,
      \<lparr>Name = ''Temperature'', Kind = KFloat64, short_tag = ''t'', long_tag = ''temperature'', yaml_tag = ''temperature''\<rparr>,
      \<lparr>Name = ''TopP'', Kind = KFloat64, short_tag = ''T'', long_tag = ''topp'', yaml_tag = ''topp''\<rparr>,
      \<lparr>Name = ''Stream'', Kind = KBool, short_tag = ''s'', long_tag = ''stream'', yaml_tag = ''stream''\<rparr>,
      \<lparr>Name = ''PresencePenalty'', Kind = KFloat64, short_tag = ''P'', long_tag = ''presencepenalty'', yaml_tag = ''presencepenalty''\<rparr>,
      \<lparr>Name = ''Raw'', Kind = KBool, short_tag = ''r'', long_tag = ''raw'', yaml_tag = ''raw''\<rparr>,
      \<lparr>Name = ''FrequencyPenalty'', Kind = KFloat64, short_tag = ''F'', long_tag = ''frequencypenalty'', yaml_tag = ''frequencypenalty''\<rparr>,
      \<lparr>Name = ''Model'', Kind = KString, short_tag = ''m'', long_tag = ''model'', yaml_tag = ''model''\<rparr>,
      \<lparr>Name = ''ModelContextLength'', Kind = KInt, short_tag = '''', long_tag = ''modelContextLength'', yaml_tag = ''modelContextLength''\<rparr>,
      \<lparr>Name = ''Seed'', Kind = KInt, short_tag = ''e'', long_tag = ''seed'', yaml_tag = ''seed''\<rparr>,
      \<lparr>Name = ''SuppressThink'', Kind = KBool, short_tag = '''', long_tag = ''suppress-think'', yaml_tag = ''suppressThink''\<rparr>,
      \<lparr>Name = ''ThinkStartTag'', Kind = KString, short_tag = '''', long_tag = ''think-start-tag'', yaml_tag = ''thinkStartTag''\<rparr>,
      \<lparr>Name = ''ThinkEndTag'', Kind = KString, short_tag = '''', long_tag = ''think-end-tag'', yaml_tag = ''thinkEndTag''\<rparr>,
      \<lparr>Name = ''DisableResponsesAPI'', Kind = KBool, short_tag = '''', long_tag = ''disable-responses-api'', yaml_tag = ''disableResponsesAPI''\<rparr>,
      \<lparr>Name = ''Voice'', Kind = KString, short_tag = '''', long_tag = ''voice'', yaml_tag = ''voice''\<rparr>]"
  by (simp add: Flags_fields_def)

lemma add_field_no_key: "yaml_tag f = [] \<Longrightarrow> add_field f m = m"
  by (simp add: add_field_def)

lemma fold_add_field_filter:
  "fold add_field fs m = fold add_field (filter (\<lambda>f. yaml_tag f \<noteq> []) fs) m"
  by (induction fs arbitrary: m) (auto simp: add_field_no_key)

lemma schema_names:
  "list_all (\<lambda>f. 
      (long_tag f \<noteq> [] \<longrightarrow> flagToYamlTag (long_tag f) = Some (yaml_tag f) \<and>
         CHR ''='' \<notin> set (long_tag f) \<and> hd (long_tag f) \<noteq> CHR ''-'') \<and>
      (short_tag f \<noteq> [] \<longrightarrow> flagToYamlTag (short_tag f) = Some (yaml_tag f) \<and>
         CHR ''='' \<notin> set (short_tag f) \<and> hd (short_tag f) \<noteq> CHR ''-''))
     (filter (\<lambda>f. yaml_tag f \<noteq> []) Flags_fields)"
  unfolding flagToYamlTag_def fold_add_field_filter [of Flags_fields] yaml_fields
  by (simp add: add_field_def)

lemma schema_yaml_distinct:
  "distinct (map yaml_tag (filter (\<lambda>f. yaml_tag f \<noteq> []) Flags_fields))"
  unfolding yaml_fields by simp

lemma schema_exported: "list_all CanSet Flags_fields"
  by (simp add: CanSet_def Flags_fields_def)

lemma schema_Message_Config:
  "yaml_tag (Flags_fields ! Message_idx) = []" "yaml_tag (Flags_fields ! Config_idx) = []"
  "Name (Flags_fields ! Message_idx) = ''Message''" "Name (Flags_fields ! Config_idx) = ''Config''"
  by (simp_all add: Flags_fields_def Message_idx_def Config_idx_def)

lemma yaml_tag_unique:
  assumes "f \<in> set Flags_fields" and "g \<in> set Flags_fields"
    and "yaml_tag f = yaml_tag g" and "yaml_tag f \<noteq> []"
  shows "f = g"
proof -
  have "inj_on yaml_tag (set (filter (\<lambda>f. yaml_tag f \<noteq> []) Flags_fields))"
    using schema_yaml_distinct by (simp only: distinct_map)
  moreover have "f \<in> set (filter (\<lambda>f. yaml_tag f \<noteq> []) Flags_fields)"
    and "g \<in> set (filter (\<lambda>f. yaml_tag f \<noteq> []) Flags_fields)"
    using assms by auto
  ultimately show ?thesis using assms(3) by (auto dest: inj_onD)
qed

lemma add_field_Some:
  "add_field f m n = Some y \<Longrightarrow>
     m n = Some y \<or> (yaml_tag f = y \<and> y \<noteq> [] \<and> n \<noteq> [] \<and> (n = long_tag f \<or> n = short_tag f))"
  by (auto simp: add_field_def Let_def split: if_splits)

lemma fold_add_field_Some:
  "fold add_field fs m n = Some y \<Longrightarrow>
     m n = Some y \<or>
     (\<exists>f\<in>set fs. yaml_tag f = y \<and> y \<noteq> [] \<and> n \<noteq> [] \<and> (n = long_tag f \<or> n = short_tag f))"
proof (induction fs arbitrary: m)
  case Nil
  then show ?case by simp
next
  case (Cons f fs)
  from Cons.prems have "fold add_field fs (add_field f m) n = Some y" by simp
  from Cons.IH [OF this] show ?case
    using add_field_Some [of f m n y] by auto
qed

lemma flagToYamlTag_Some:
  "flagToYamlTag n = Some y \<Longrightarrow>
     \<exists>f\<in>set Flags_fields. yaml_tag f = y \<and> y \<noteq> [] \<and> n \<noteq> [] \<and> (n = long_tag f \<or> n = short_tag f)"
  unfolding flagToYamlTag_def using fold_add_field_Some [of Flags_fields Map.empty n y] by simp

lemma fold_scan_arg:
  "y \<in> fold scan_arg args U \<longleftrightarrow>
     y \<in> U \<or> (\<exists>arg\<in>set args. extractFlag arg \<noteq> [] \<and> flagToYamlTag (extractFlag arg) = Some y)"
  by (induction args arbitrary: U) (auto simp: scan_arg_def Let_def split: option.splits)

lemma scan_args_iff:
  "y \<in> scan_args args \<longleftrightarrow>
     (\<exists>arg\<in>set args. extractFlag arg \<noteq> [] \<and> flagToYamlTag (extractFlag arg) = Some y)"
  by (simp add: scan_args_def fold_scan_arg)

lemma used_iff_named:
  assumes "f \<in> set Flags_fields" and "yaml_tag f \<noteq> []"
  shows "yaml_tag f \<in> scan_args args \<longleftrightarrow> named_on_cli f args"
proof
  assume "yaml_tag f \<in> scan_args args"
  then obtain arg where arg: "arg \<in> set args" "extractFlag arg \<noteq> []"
      "flagToYamlTag (extractFlag arg) = Some (yaml_tag f)"
    by (auto simp: scan_args_iff)
  from flagToYamlTag_Some [OF arg(3)] obtain g where g: "g \<in> set Flags_fields"
      "yaml_tag g = yaml_tag f" "extractFlag arg = long_tag g \<or> extractFlag arg = short_tag g"
    by auto
  from yaml_tag_unique [OF assms(1) g(1) g(2) [symmetric] assms(2)] have "g = f" by simp
  with g(3) extractFlag_names [OF refl arg(2)] have "option_named f arg"
    by (auto simp: option_named_def)
  with arg(1) show "named_on_cli f args" by (auto simp: named_on_cli_def list_ex_iff)
next
  assume "named_on_cli f args"
  then obtain arg n where arg: "arg \<in> set args" "names_flag n arg" "n = short_tag f \<or> n = long_tag f"
    by (auto simp: named_on_cli_def list_ex_iff option_named_def)
  from arg(2) have ne: "n \<noteq> []" by (simp add: names_flag_def)
  from assms have "f \<in> set (filter (\<lambda>f. yaml_tag f \<noteq> []) Flags_fields)" by simp
  with schema_names arg(3) ne
  have n: "flagToYamlTag n = Some (yaml_tag f)" "CHR ''='' \<notin> set n" "hd n \<noteq> CHR ''-''"
    unfolding list_all_iff by blast+
  from names_extractFlag [OF arg(2) n(2) n(3)] have "extractFlag arg = n" .
  with arg(1) ne n(1) show "yaml_tag f \<in> scan_args args"
    by (auto simp: scan_args_iff)
qed


subsection \<open>The phases of Init\<close>

lemma nth_mem_fields: "i < length Flags_fields \<Longrightarrow> Flags_fields ! i \<in> set Flags_fields"
  by simp

lemma keyed_not_Message_Config:
  "yaml_tag (Flags_fields ! i) \<noteq> [] \<Longrightarrow> i \<noteq> Message_idx \<and> i \<noteq> Config_idx"
  using schema_Message_Config by auto

lemma default_config_nth: "i \<noteq> Config_idx \<Longrightarrow> default_config w ret ! i = ret ! i"
  by (simp add: default_config_def set_Config_def split: prod.splits)

lemma default_config_length: "length (default_config w ret) = length ret"
  by (simp add: default_config_def set_Config_def split: prod.splits)

lemma assemble_nth:
  "assemble w ret args = Inr final \<Longrightarrow> i \<noteq> Message_idx \<Longrightarrow> final ! i = ret ! i"
  by (auto simp: assemble_def Let_def set_Message_def split: option.splits if_splits sum.splits)

lemma Init_Inr:
  assumes "Init lib w = Inr final"
  obtains parsed rest merged where "Parse lib (Args w) = Some (parsed, rest)"
    and "load_and_merge lib w (scan_args (Args w)) (default_config w parsed) = Inr merged"
    and "assemble w merged rest = Inr final"
  using assms by (auto simp: Init_def Let_def split: option.splits sum.splits)

lemma load_and_merge_Inr:
  assumes "load_and_merge lib w usedFlags ret = Inr merged"
  shows "(get_Config ret = [] \<and> merged = ret) \<or>
         (\<exists>yamlFlags. get_Config ret \<noteq> [] \<and> loadYAMLConfig lib w (get_Config ret) = Inr yamlFlags \<and>
            merged = merge lib usedFlags ret yamlFlags)"
  using assms by (auto simp: load_and_merge_def split: if_splits sum.splits)

lemma wt_Flags_length: "wt_Flags fl \<Longrightarrow> length fl = length Flags_fields"
  unfolding wt_Flags_def by (metis length_map)

lemma wt_Flags_kind:
  "wt_Flags fl \<Longrightarrow> i < length Flags_fields \<Longrightarrow> kind_of (fl ! i) = Kind (Flags_fields ! i)"
  unfolding wt_Flags_def by (metis length_map nth_map)

lemma wt_Flags_update:
  "wt_Flags fl \<Longrightarrow> i < length Flags_fields \<Longrightarrow> kind_of v = Kind (Flags_fields ! i) \<Longrightarrow> wt_Flags (fl[i := v])"
  unfolding wt_Flags_def by (metis list_update_id map_update)

lemma default_config_wt: "wt_Flags ret \<Longrightarrow> wt_Flags (default_config w ret)"
  by (auto simp: default_config_def set_Config_def Config_idx_def length_Flags_fields
      intro!: wt_Flags_update split: prod.splits) (simp add: Flags_fields_def)

lemma CanSet_nth: "i < length Flags_fields \<Longrightarrow> CanSet (Flags_fields ! i)"
  using schema_exported by (simp add: list_all_length)

text \<open>For structs of type \<open>Flags\<close> the conversion branch is never taken.\<close>

lemma merge_nth_typed:
  assumes "wt_Flags ret" and "wt_Flags yamlFlags" and "i < length Flags_fields"
  shows "merge lib usedFlags ret yamlFlags ! i =
     (if yaml_tag (Flags_fields ! i) \<noteq> [] \<and> yaml_tag (Flags_fields ! i) \<notin> usedFlags
      then yamlFlags ! i else ret ! i)"
  using assms wt_Flags_kind [OF assms(1,3)] wt_Flags_kind [OF assms(2,3)] CanSet_nth [OF assms(3)]
  by (simp add: merge_nth merge_field_def wt_Flags_length)

subsection \<open>Evaluating the scenarios\<close>

lemma example_defaults_length: "length example_defaults = 68"
  by (simp add: example_defaults_def zero_Flags_def length_Flags_fields)

lemma example_defaults_wt: "wt_Flags example_defaults"
  by (simp add: wt_Flags_def example_defaults_def zero_Flags_def Flags_fields_def)

lemma get_Config_update: "i \<noteq> Config_idx \<Longrightarrow> get_Config (fl[i := v]) = get_Config fl"
  by (simp add: get_Config_def get_string_def)

lemma get_Config_set: "Config_idx < length fl \<Longrightarrow> get_Config (set_Config fl p) = p"
  by (simp add: get_Config_def get_string_def set_Config_def)

lemma get_Message_set: "Message_idx < length fl \<Longrightarrow> get_Message (set_Message fl s) = s"
  by (simp add: get_Message_def get_string_def set_Message_def)

lemma flagToYamlTag_keyed:
  "flagToYamlTag = fold add_field (filter (\<lambda>f. yaml_tag f \<noteq> []) Flags_fields) Map.empty"
  unfolding flagToYamlTag_def by (rule fold_add_field_filter)

lemma scan_args_scenario_B: "scan_args [''-t'', ''0.2''] = {''temperature''}"
  by (simp add: scan_args_def scan_arg_def extractFlag_def HasPrefix_def TrimPrefix_def Index_def
      flagToYamlTag_keyed yaml_fields add_field_def)

lemma Init_scenario_B:
  "Init example_library (example_world [''-t'', ''0.2''] (Data ''temperature: 0.9'') True []) =
     Inr (merge example_library {''temperature''}
            (set_Config (example_defaults[6 := VFloat 0x3FC999999999999A]) ''/home/u/.config/fabric/config.yaml'')
            (zero_Flags[6 := VFloat 0x3FECCCCCCCCCCCCD]))"
  by (simp add: Init_def example_world_def example_library_def example_Parse_def scan_args_scenario_B
      default_config_def load_and_merge_def loadYAMLConfig_def example_Unmarshal_def assemble_def
      get_Config_update get_Config_set example_defaults_Config example_defaults_length Config_idx_def)

lemma zero_Flags_nth: "i < length Flags_fields \<Longrightarrow> zero_Flags ! i = zero_of (Kind (Flags_fields ! i))"
  by (simp add: zero_Flags_def)

lemma zero_Flags_length: "length zero_Flags = 68"
  by (simp add: zero_Flags_def length_Flags_fields)

lemma zero_Flags_wt: "wt_Flags zero_Flags"
  by (simp add: wt_Flags_def zero_Flags_def Flags_fields_def)

lemma loadYAMLConfig_Inr:
  "GetAbsolutePath w path = Some absPath \<Longrightarrow> ReadFile w absPath = Data data \<Longrightarrow>
   Unmarshal lib data zero_Flags = Some yamlFlags \<Longrightarrow> loadYAMLConfig lib w path = Inr yamlFlags"
  by (simp add: loadYAMLConfig_def)

lemma config_path_eq:
  "Parse lib (Args w) = Some (parsed, rest) \<Longrightarrow> config_path lib w = get_Config (default_config w parsed)"
  by (simp add: config_path_def)

text \<open>A config file that sets only the model; nothing on the command line.\<close>

lemma scan_args_Nil: "scan_args [] = {}"
  by (simp add: scan_args_def)

lemma Init_model_only:
  "Init example_library (example_world [] (Data ''model: gpt-4'') True []) =
     Inr (merge example_library {}
            (set_Config example_defaults ''/home/u/.config/fabric/config.yaml'')
            (zero_Flags[19 := VString ''gpt-4'']))"
  by (simp add: Init_def example_world_def example_library_def example_Parse_def scan_args_Nil
      default_config_def load_and_merge_def loadYAMLConfig_def example_Unmarshal_def assemble_def
      get_Config_update get_Config_set example_defaults_Config example_defaults_length Config_idx_def)

lemma key_absent_model_only: "key_absent example_library ''model: gpt-4'' 6"
  by (simp add: key_absent_def example_library_def example_Unmarshal_def)

lemma example_defaults_Temperature: "example_defaults ! 6 = VFloat 0x3FE6666666666666"
  by (simp add: example_defaults_def zero_Flags_length)

lemma Temperature_field:
  "(6::nat) < length Flags_fields" "yaml_tag (Flags_fields ! 6) = ''temperature''"
  "Kind (Flags_fields ! 6) = KFloat64"
  by (simp_all add: Flags_fields_def)

lemma merge_model_only_Temperature:
  "merge example_library {}
            (set_Config example_defaults ''/home/u/.config/fabric/config.yaml'')
            (zero_Flags[19 := VString ''gpt-4'']) ! 6 = VFloat 0"
proof -
  have "wt_Flags (set_Config example_defaults ''/home/u/.config/fabric/config.yaml'')"
    unfolding set_Config_def
    by (rule wt_Flags_update [OF example_defaults_wt]) (simp_all add: Config_idx_def Flags_fields_def)
  moreover have "wt_Flags (zero_Flags[19 := VString ''gpt-4''])"
    by (rule wt_Flags_update [OF zero_Flags_wt]) (simp_all add: Flags_fields_def)
  ultimately show ?thesis
    using merge_nth_typed [of _ _ 6 example_library "{}"] Temperature_field
    by (simp add: zero_Flags_nth)
qed

lemma resolved_model_only_Temperature:
  "resolved_field (Init example_library (example_world [] (Data ''model: gpt-4'') True [])) 6
     = Some (VFloat 0)"
  by (simp only: Init_model_only resolved_field_def sum.case merge_model_only_Temperature)

lemma Parse_example_Nil: "Parse example_library [] = Some (example_defaults, [])"
  by (simp add: example_library_def example_Parse_def)

subsection \<open>The conversions, called directly\<close>

lemma int64_of_42_9: "int64_of_float64 lib 0x4045733333333333 = 42"
  by (simp add: int64_of_float64_def float64_trunc_def)

lemma int64_of_7: "int64_of_float64 lib 0x401C000000000000 = 7"
  by (simp add: int64_of_float64_def float64_trunc_def)

lemma assignWithConversion_Int_float:
  "ParseFloat lib str = Some val \<Longrightarrow>
   assignWithConversion lib (VInt n) (VString str) = Inr (VInt (int64_of_float64 lib val))"
  by (simp add: assignWithConversion_def)

lemma assignWithConversion_Int_fail:
  "ParseFloat lib str = None \<Longrightarrow> ParseInt str = None \<Longrightarrow>
   assignWithConversion lib (VInt n) (VString str) = Inl (CannotConvert str KInt)"
  by (simp add: assignWithConversion_def)

lemma assignWithConversion_Bool:
  "assignWithConversion lib (VBool b) (VString str) =
     (case ParseBool str of Some val \<Rightarrow> Inr (VBool val) | None \<Rightarrow> Inl (CannotConvert str KBool))"
  by (simp add: assignWithConversion_def)

lemma ParseBool_true_false: "ParseBool ''true'' = Some True" "ParseBool ''false'' = Some False"
  by (simp_all add: ParseBool_def)

lemma merge_field_failed_conversion:
  "kind_of yamlField \<noteq> kind_of flagField \<Longrightarrow>
   assignWithConversion lib flagField yamlField = Inl err \<Longrightarrow>
   merge_field lib usedFlags field flagField yamlField = flagField"
  by (simp add: merge_field_def)

lemma Seed_field:
  "(34::nat) < length Flags_fields" "yaml_tag (Flags_fields ! 34) = ''seed''"
  "Kind (Flags_fields ! 34) = KInt"
  by (simp_all add: Flags_fields_def)

subsection \<open>The extraction against its specification\<close>

lemma spec_extractFlag_eq:
  "spec_extractFlag arg = takeWhile (\<lambda>c. c \<noteq> CHR ''='') (remainder arg)"
  by (simp add: spec_extractFlag_def remainder_def numeral_2_eq_2)

lemma extractFlag_spec:
  "extractFlag arg =
     (if HasPrefix (remainder arg) ''='' then remainder arg else spec_extractFlag arg)"
  by (simp add: extractFlag_eq spec_extractFlag_eq)

lemma name_match_iff:
  assumes "n \<noteq> []" and "CHR ''='' \<notin> set n"
  shows "extractFlag arg = n \<longleftrightarrow> spec_extractFlag arg = n"
proof (cases "HasPrefix (remainder arg) ''=''")
  case True
  then obtain t where r: "remainder arg = CHR ''='' # t"
    by (cases "remainder arg") (auto simp: HasPrefix_def)
  then have "extractFlag arg = CHR ''='' # t" "spec_extractFlag arg = []"
    using True by (simp_all add: extractFlag_spec spec_extractFlag_eq)
  with assms show ?thesis by auto
next
  case False
  then show ?thesis by (simp add: extractFlag_spec)
qed

lemma flagToYamlTag_iff:
  "flagToYamlTag n = Some y \<longleftrightarrow>
     (\<exists>f\<in>set Flags_fields. yaml_tag f = y \<and> y \<noteq> [] \<and> n \<noteq> [] \<and> (n = long_tag f \<or> n = short_tag f))"
proof
  assume "flagToYamlTag n = Some y"
  then show "\<exists>f\<in>set Flags_fields. yaml_tag f = y \<and> y \<noteq> [] \<and> n \<noteq> [] \<and> (n = long_tag f \<or> n = short_tag f)"
    by (rule flagToYamlTag_Some)
next
  assume "\<exists>f\<in>set Flags_fields. yaml_tag f = y \<and> y \<noteq> [] \<and> n \<noteq> [] \<and> (n = long_tag f \<or> n = short_tag f)"
  then obtain f where f: "f \<in> set Flags_fields" "yaml_tag f = y" "y \<noteq> []" "n \<noteq> []"
      "n = long_tag f \<or> n = short_tag f" by auto
  then have "f \<in> set (filter (\<lambda>f. yaml_tag f \<noteq> []) Flags_fields)" by simp
  with schema_names f show "flagToYamlTag n = Some y"
    unfolding list_all_iff by blast
qed

lemma schema_name_no_eq:
  assumes "f \<in> set Flags_fields" and "yaml_tag f \<noteq> []" and "n \<noteq> []"
    and "n = long_tag f \<or> n = short_tag f"
  shows "CHR ''='' \<notin> set n"
proof -
  from assms have "f \<in> set (filter (\<lambda>f. yaml_tag f \<noteq> []) Flags_fields)" by simp
  with schema_names assms(3,4) show ?thesis unfolding list_all_iff by blast
qed

subsection \<open>Init, phase by phase\<close>

lemma Init_parsed:
  "Parse lib (Args w) = Some (parsed, rest) \<Longrightarrow>
   Init lib w =
     (case load_and_merge lib w (scan_args (Args w)) (default_config w parsed) of
        Inl err \<Rightarrow> Inl err
      | Inr merged \<Rightarrow> assemble w merged rest)"
  by (simp add: Init_def)

lemma default_config_explicit: "get_Config ret \<noteq> [] \<Longrightarrow> default_config w ret = ret"
  by (simp add: default_config_def)

lemma default_config_none:
  "get_Config ret = [] \<Longrightarrow> snd (GetDefaultConfigPath w) \<or> fst (GetDefaultConfigPath w) = [] \<Longrightarrow>
   default_config w ret = ret"
  by (auto simp: default_config_def split: prod.splits)

lemma assemble_terminal:
  "Stdin_ModeCharDevice w = Some True \<Longrightarrow>
   assemble w ret args =
     Inr (if length args > 0 then set_Message ret (AppendMessage (get_Message ret) (last args))
          else ret)"
  by (auto simp: assemble_def Let_def last_conv_nth)

lemma example_defaults_Message: "get_Message example_defaults = []"
  by (simp add: get_Message_def get_string_def Message_idx_def example_defaults_def
      zero_Flags_def Flags_fields_def)

subsection \<open>The message\<close>

lemma load_and_merge_Message:
  assumes "load_and_merge lib w usedFlags ret = Inr merged"
  shows "merged ! Message_idx = ret ! Message_idx" and "length merged = length ret"
  using load_and_merge_Inr [OF assms] schema_Message_Config(1)
  by (auto simp: merge_no_key merge_length)

lemma get_Message_cong: "fl ! Message_idx = fl' ! Message_idx \<Longrightarrow> get_Message fl = get_Message fl'"
  by (simp add: get_Message_def get_string_def)

lemma Message_idx_less: "Message_idx < length Flags_fields"
  by (simp add: Message_idx_def length_Flags_fields)

lemma set_Message_nth: "i \<noteq> Message_idx \<Longrightarrow> set_Message fl s ! i = fl ! i"
  by (simp add: set_Message_def)

lemma set_Message_length: "length (set_Message fl s) = length fl"
  by (simp add: set_Message_def)

lemma assemble_piped:
  "Stdin_ModeCharDevice w = Some False \<Longrightarrow> ending (Stdin w) = EOF \<Longrightarrow>
   assemble w ret args =
     Inr (let ret1 = (if length args > 0
                      then set_Message ret (AppendMessage (get_Message ret) (last args)) else ret)
          in set_Message ret1 (AppendMessage (get_Message ret1) (pending (Stdin w))))"
  by (auto simp: assemble_def Let_def last_conv_nth readStdin_eq)

lemma load_and_merge_no_config: "get_Config ret = [] \<Longrightarrow> load_and_merge lib w usedFlags ret = Inr ret"
  by (simp add: load_and_merge_def)

lemma example_world_no_default:
  "default_config (example_world args NotExist charDevice input) ret = ret"
  by (simp add: default_config_def example_world_def)

subsection \<open>What a run reads\<close>

lemma default_config_depends:
  "GetDefaultConfigPath w1 = GetDefaultConfigPath w2 \<Longrightarrow> default_config w1 ret = default_config w2 ret"
  by (simp add: default_config_def)

lemma loadYAMLConfig_depends:
  assumes "GetAbsolutePath w1 path = GetAbsolutePath w2 path"
    and "\<forall>absPath. GetAbsolutePath w1 path = Some absPath \<longrightarrow> ReadFile w1 absPath = ReadFile w2 absPath"
  shows "loadYAMLConfig lib w1 path = loadYAMLConfig lib w2 path"
  using assms by (auto simp: loadYAMLConfig_def split: option.splits)

lemma assemble_depends:
  assumes "Stdin_ModeCharDevice w1 = Stdin_ModeCharDevice w2" and "Stdin w1 = Stdin w2"
  shows "assemble w1 ret args = assemble w2 ret args"
  unfolding assemble_def assms ..

subsection \<open>Bundled short flags\<close>

lemma extractFlag_single_dash:
  assumes "CHR ''='' \<notin> set cs" and "cs \<noteq> []" and "hd cs \<noteq> CHR ''-''"
  shows "extractFlag (CHR ''-'' # cs) = cs"
proof -
  have "names_flag cs (CHR ''-'' # cs)" using assms(2) by (simp add: names_flag_def)
  then show ?thesis using assms(1,3) by (rule names_extractFlag)
qed

lemma scan_arg_unmatched:
  "flagToYamlTag (extractFlag arg) = None \<Longrightarrow> scan_arg arg usedFlags = usedFlags"
  by (simp add: scan_arg_def Let_def)

lemma scan_arg_bare_dashes: "scan_arg ''-'' usedFlags = usedFlags" "scan_arg ''--'' usedFlags = usedFlags"
  by (simp_all add: scan_arg_def extractFlag_def HasPrefix_def TrimPrefix_def Index_def)

section \<open>The claims\<close>

text \<open>
  C7. Reading piped standard input returns everything up to the end of the stream, a last
  line without a newline included, when the stream ends with end-of-file, and fails with
  the I/O error when it ends with any other error. With standard input piped, the input
  assembler fails with that error exactly when the read does.
\<close>

theorem readStdin_until_end_of_stream:
  "readStdin r = (if ending r = EOF then Inr (pending r) else Inl IOError) \<and>
   (Stdin_ModeCharDevice w = Some False \<longrightarrow>
      (assemble w ret args = Inl IOError) = (ending (Stdin w) \<noteq> EOF))"
  by (simp add: readStdin_eq assemble_def Let_def)

theorem readStdin_until_end_of_stream_witness:
  "readStdin \<lparr>pending = ''line1'' @ [CHR 0x0A] @ ''line2'', ending = EOF\<rparr>
     = Inr (''line1'' @ [CHR 0x0A] @ ''line2'') \<and>
   readStdin \<lparr>pending = ''line1'' @ [CHR 0x0A] @ ''line2'', ending = ReadFailure\<rparr> = Inl IOError \<and>
   Stdin_ModeCharDevice (example_world [] NotExist False ''line1'') = Some False \<and>
   assemble (example_world [] NotExist False ''line1'') example_defaults [] \<noteq> Inl IOError"
  using readStdin_until_end_of_stream
          [of "\<lparr>pending = ''line1'' @ [CHR 0x0A] @ ''line2'', ending = EOF\<rparr>"
              "example_world [] NotExist False ''line1''" example_defaults "[]"]
        readStdin_until_end_of_stream
          [of "\<lparr>pending = ''line1'' @ [CHR 0x0A] @ ''line2'', ending = ReadFailure\<rparr>"
              "example_world [] NotExist False ''line1''" example_defaults "[]"]
  by (simp add: example_world_def)

text \<open>
  C8. The merge changes only fields that have a config-file key: a field without a yaml
  tag holds after the merge what it held before, whatever was decoded from the config
  file, and so after the whole load-and-merge step when that step succeeds.
\<close>

theorem merge_leaves_cli_only_fields:
  assumes "i < length Flags_fields" and "yaml_tag (Flags_fields ! i) = []"
  shows "merge lib usedFlags ret yamlFlags ! i = ret ! i \<and>
         (load_and_merge lib w usedFlags ret = Inr merged \<longrightarrow> merged ! i = ret ! i)"
  using assms(2)
  by (auto simp: load_and_merge_def merge_no_key split: if_splits sum.splits)

theorem merge_leaves_cli_only_fields_witness:
  "(2::nat) < length Flags_fields \<and> yaml_tag (Flags_fields ! 2) = [] \<and>
   (zero_Flags[2 := VString ''work'']) ! 2 = VString ''work'' \<and>
   merge example_library {} (example_defaults[2 := VString ''home''])
      (zero_Flags[2 := VString ''work'']) ! 2 = VString ''home''"
proof -
  have a: "(2::nat) < length Flags_fields" by (simp add: length_Flags_fields)
  have b: "yaml_tag (Flags_fields ! 2) = []" by (simp add: Flags_fields_def)
  have c: "(zero_Flags[2 := VString ''work'']) ! 2 = VString ''work''"
    by (simp add: zero_Flags_def length_Flags_fields)
  have d: "(example_defaults[2 := VString ''home'']) ! 2 = VString ''home''"
    by (simp add: example_defaults_def zero_Flags_def length_Flags_fields)
  from merge_leaves_cli_only_fields [OF a b, of example_library "{}"
      "example_defaults[2 := VString ''home'']" "zero_Flags[2 := VString ''work'']"] a b c d
  show ?thesis by simp
qed

text \<open>
  C1. For every option with a config-file key: when a raw token names the option (its short
  or its long name behind one or two dashes, alone or followed by \<open>=\<close> and a value),
  the resolved value is the one the command-line parser produced, whatever the config file
  holds and whatever the parsed value is (the schema default included).
\<close>

theorem cli_flag_wins:
  assumes "i < length Flags_fields" and "yaml_tag (Flags_fields ! i) \<noteq> []"
    and "named_on_cli (Flags_fields ! i) (Args w)"
    and "Parse lib (Args w) = Some (parsed, rest)"
    and "Init lib w = Inr final"
  shows "final ! i = parsed ! i"
proof -
  from assms(5) obtain parsed' rest' merged where
      p: "Parse lib (Args w) = Some (parsed', rest')"
    and m: "load_and_merge lib w (scan_args (Args w)) (default_config w parsed') = Inr merged"
    and a: "assemble w merged rest' = Inr final"
    by (rule Init_Inr)
  from p assms(4) have [simp]: "parsed' = parsed" "rest' = rest" by simp_all
  from keyed_not_Message_Config [OF assms(2)] have i: "i \<noteq> Message_idx" "i \<noteq> Config_idx"
    by simp_all
  have used: "yaml_tag (Flags_fields ! i) \<in> scan_args (Args w)"
    using used_iff_named [OF nth_mem_fields [OF assms(1)] assms(2)] assms(3) by simp
  have "merged ! i = default_config w parsed ! i"
    using load_and_merge_Inr [OF m] used by (auto simp: merge_nth merge_field_def)
  then show ?thesis
    using assemble_nth [OF a i(1)] default_config_nth [OF i(2)] by simp
qed

theorem cli_flag_wins_witness:
  "(6::nat) < length Flags_fields \<and> yaml_tag (Flags_fields ! 6) = ''temperature'' \<and>
   named_on_cli (Flags_fields ! 6) [''-t'', ''0.2''] \<and>
   example_Unmarshal ''temperature: 0.9'' zero_Flags = Some (zero_Flags[6 := VFloat 0x3FECCCCCCCCCCCCD]) \<and>
   resolved_field
     (Init example_library (example_world [''-t'', ''0.2''] (Data ''temperature: 0.9'') True [])) 6
     = Some (VFloat 0x3FC999999999999A)"
proof -
  let ?w = "example_world [''-t'', ''0.2''] (Data ''temperature: 0.9'') True []"
  have a: "(6::nat) < length Flags_fields" by (simp add: length_Flags_fields)
  have b: "yaml_tag (Flags_fields ! 6) = ''temperature''" by (simp add: Flags_fields_def)
  have c: "named_on_cli (Flags_fields ! 6) (Args ?w)"
    by (simp add: example_world_def named_on_cli_def option_named_def names_flag_def Flags_fields_def)
  have d: "Parse example_library (Args ?w) = Some (example_defaults[6 := VFloat 0x3FC999999999999A], [])"
    by (simp add: example_world_def example_library_def example_Parse_def)
  obtain final where e: "Init example_library ?w = Inr final"
    using Init_scenario_B by simp
  from cli_flag_wins [OF a _ c d e] b
  have "final ! 6 = (example_defaults[6 := VFloat 0x3FC999999999999A]) ! 6" by simp
  then have "final ! 6 = VFloat 0x3FC999999999999A"
    by (simp add: example_defaults_length)
  with a b c e show ?thesis
    by (simp add: resolved_field_def example_world_def example_Unmarshal_def)
qed

text \<open>
  C2, as stated: for an option with a config-file key that no raw token names, a key absent
  from the loaded config file leaves the parsed default in place. It fails: with a config
  file that sets only the model and nothing on the command line, the temperature is resolved
  to 0, not to the parsed default 0.7.
\<close>

theorem absent_key_overwrites_default_counterexample:
  "yaml_tag (Flags_fields ! 6) = ''temperature'' \<and>
   \<not> named_on_cli (Flags_fields ! 6) [] \<and>
   Parse example_library [] = Some (example_defaults, []) \<and>
   example_defaults ! 6 = VFloat 0x3FE6666666666666 \<and>
   key_absent example_library ''model: gpt-4'' 6 \<and>
   resolved_field (Init example_library (example_world [] (Data ''model: gpt-4'') True [])) 6
     = Some (VFloat 0) \<and>
   resolved_field (Init example_library (example_world [] (Data ''model: gpt-4'') True [])) 6
     \<noteq> Some (example_defaults ! 6)"
proof -
  have "\<not> named_on_cli (Flags_fields ! 6) []" by (simp add: named_on_cli_def)
  then show ?thesis
    using Temperature_field(2) key_absent_model_only example_defaults_Temperature
      resolved_model_only_Temperature Parse_example_Nil
    by simp
qed

text \<open>
  C2, amended. For every option with a config-file key that no raw token names, when a
  config file is loaded the resolved value is the value of that field in the struct the
  file was decoded into. The decoder starts from the zero struct, so for a key that the
  file does not mention the resolved value is the zero value of the field's type, not the
  parsed default.
\<close>

theorem config_value_when_not_named:
  assumes "i < length Flags_fields" and "yaml_tag (Flags_fields ! i) \<noteq> []"
    and "\<not> named_on_cli (Flags_fields ! i) (Args w)"
    and "Parse lib (Args w) = Some (parsed, rest)" and "wt_Flags parsed"
    and "config_path lib w \<noteq> []"
    and "GetAbsolutePath w (config_path lib w) = Some absPath"
    and "ReadFile w absPath = Data data"
    and "Unmarshal lib data zero_Flags = Some yamlFlags" and "wt_Flags yamlFlags"
    and "Init lib w = Inr final"
  shows "final ! i = yamlFlags ! i \<and>
         (key_absent lib data i \<longrightarrow> final ! i = zero_of (Kind (Flags_fields ! i)))"
proof -
  from assms(11) obtain parsed' rest' merged where
      p: "Parse lib (Args w) = Some (parsed', rest')"
    and m: "load_and_merge lib w (scan_args (Args w)) (default_config w parsed') = Inr merged"
    and a: "assemble w merged rest' = Inr final"
    by (rule Init_Inr)
  from p assms(4) have [simp]: "parsed' = parsed" "rest' = rest" by simp_all
  let ?ret = "default_config w parsed"
  have cp: "config_path lib w = get_Config ?ret" using assms(4) by (rule config_path_eq)
  from keyed_not_Message_Config [OF assms(2)] have i: "i \<noteq> Message_idx" "i \<noteq> Config_idx"
    by simp_all
  have unused: "yaml_tag (Flags_fields ! i) \<notin> scan_args (Args w)"
    using used_iff_named [OF nth_mem_fields [OF assms(1)] assms(2)] assms(3) by simp
  have load: "loadYAMLConfig lib w (get_Config ?ret) = Inr yamlFlags"
    using assms(7-9) unfolding cp by (rule loadYAMLConfig_Inr)
  have "merged = merge lib (scan_args (Args w)) ?ret yamlFlags"
    using load_and_merge_Inr [OF m] assms(6) load unfolding cp by auto
  then have "merged ! i = yamlFlags ! i"
    using merge_nth_typed [OF default_config_wt [OF assms(5)] assms(10) assms(1)] assms(2) unused
    by simp
  then have fin: "final ! i = yamlFlags ! i"
    using assemble_nth [OF a i(1)] by simp
  moreover have "key_absent lib data i \<Longrightarrow> yamlFlags ! i = zero_of (Kind (Flags_fields ! i))"
    using assms(9) zero_Flags_nth [OF assms(1)] by (auto simp: key_absent_def)
  ultimately show ?thesis by simp
qed

theorem config_value_when_not_named_witness:
  "(6::nat) < length Flags_fields \<and> yaml_tag (Flags_fields ! 6) = ''temperature'' \<and>
   \<not> named_on_cli (Flags_fields ! 6) [] \<and>
   config_path example_library (example_world [] (Data ''model: gpt-4'') True [])
     = ''/home/u/.config/fabric/config.yaml'' \<and>
   key_absent example_library ''model: gpt-4'' 6 \<and>
   resolved_field (Init example_library (example_world [] (Data ''model: gpt-4'') True [])) 6
     = Some (zero_of KFloat64)"
proof -
  let ?w = "example_world [] (Data ''model: gpt-4'') True []"
  let ?p = "''/home/u/.config/fabric/config.yaml''"
  have args: "Args ?w = []" by (simp add: example_world_def)
  have n0: "\<not> named_on_cli (Flags_fields ! 6) []" by (simp add: named_on_cli_def)
  then have n: "\<not> named_on_cli (Flags_fields ! 6) (Args ?w)" unfolding args .
  have p: "Parse example_library (Args ?w) = Some (example_defaults, [])"
    by (simp only: args Parse_example_Nil)
  have "get_Config (default_config ?w example_defaults) = ?p"
    by (simp add: default_config_def example_defaults_Config
        example_world_def get_Config_set example_defaults_length Config_idx_def)
  then have cp: "config_path example_library ?w = ?p"
    by (simp only: config_path_eq [OF p])
  have cp': "config_path example_library ?w \<noteq> []" by (simp only: cp) simp
  have "GetAbsolutePath ?w ?p = Some ?p" by (simp add: example_world_def)
  then have ab: "GetAbsolutePath ?w (config_path example_library ?w) = Some ?p"
    by (simp only: cp)
  have rf: "ReadFile ?w ?p = Data ''model: gpt-4''" by (simp add: example_world_def)
  have um: "Unmarshal example_library ''model: gpt-4'' zero_Flags = Some (zero_Flags[19 := VString ''gpt-4''])"
    by (simp add: example_library_def example_Unmarshal_def)
  have wt: "wt_Flags (zero_Flags[19 := VString ''gpt-4''])"
    by (rule wt_Flags_update [OF zero_Flags_wt]) (simp_all add: Flags_fields_def)
  obtain final where fin: "Init example_library ?w = Inr final"
    using Init_model_only by simp
  have k: "yaml_tag (Flags_fields ! 6) \<noteq> []" by (simp add: Temperature_field(2))
  from config_value_when_not_named [OF Temperature_field(1) k n p example_defaults_wt cp' ab rf um wt fin]
    key_absent_model_only
  have "final ! 6 = zero_of KFloat64" by (auto simp: Temperature_field(3))
  then have "resolved_field (Init example_library ?w) 6 = Some (zero_of KFloat64)"
    by (simp only: fin resolved_field_def sum.case)
  with Temperature_field(1,2) n0 cp key_absent_model_only show ?thesis
    by simp
qed

text \<open>
  C3. Called directly, \<^verbatim>\<open>assignWithConversion\<close> does what the claim says: the text
  \<^verbatim>\<open>42.9\<close> becomes the integer 42 and the text \<^verbatim>\<open>7\<close> the integer 7 (given
  what \<^verbatim>\<open>ParseFloat\<close> returns for them), \<^verbatim>\<open>true\<close> and \<^verbatim>\<open>false\<close> become the
  booleans, and a text that neither parse accepts is an error that leaves the field as it
  was. But the merge of \<^verbatim>\<open>Init\<close> works on two structs of type \<^verbatim>\<open>Flags\<close>: at
  every index the two fields have the same kind, the conversion is never called, and the
  merged field is the decoded field or the parsed one. In particular the decoded
  \<^verbatim>\<open>Seed\<close> is an integer already; no text reaches the conversion.
\<close>

theorem conversion_never_reached_by_merge:
  "(ParseFloat lib ''42.9'' = Some 0x4045733333333333 \<longrightarrow>
      assignWithConversion lib (VInt n) (VString ''42.9'') = Inr (VInt 42)) \<and>
   (ParseFloat lib ''7'' = Some 0x401C000000000000 \<longrightarrow>
      assignWithConversion lib (VInt n) (VString ''7'') = Inr (VInt 7)) \<and>
   assignWithConversion lib (VBool b) (VString ''true'') = Inr (VBool True) \<and>
   assignWithConversion lib (VBool b) (VString ''false'') = Inr (VBool False) \<and>
   (ParseFloat lib str = None \<and> ParseInt str = None \<longrightarrow>
      assignWithConversion lib (VInt n) (VString str) = Inl (CannotConvert str KInt) \<and>
      merge_field lib usedFlags field (VInt n) (VString str) = VInt n) \<and>
   (wt_Flags ret \<and> wt_Flags yamlFlags \<and> i < length Flags_fields \<longrightarrow>
      kind_of (yamlFlags ! i) = kind_of (ret ! i) \<and>
      merge lib usedFlags ret yamlFlags ! i =
        (if yaml_tag (Flags_fields ! i) \<noteq> [] \<and> yaml_tag (Flags_fields ! i) \<notin> usedFlags
         then yamlFlags ! i else ret ! i))"
  by (auto simp: assignWithConversion_Int_float int64_of_42_9 int64_of_7 assignWithConversion_Bool
        ParseBool_true_false assignWithConversion_Int_fail merge_field_failed_conversion
        wt_Flags_kind merge_nth_typed)

theorem conversion_never_reached_by_merge_witness:
  "ParseFloat example_library ''42.9'' = Some 0x4045733333333333 \<and>
   assignWithConversion example_library (VInt 0) (VString ''42.9'') = Inr (VInt 42) \<and>
   ParseFloat example_library ''7'' = Some 0x401C000000000000 \<and>
   assignWithConversion example_library (VInt 0) (VString ''7'') = Inr (VInt 7) \<and>
   ParseFloat example_library ''abc'' = None \<and> ParseInt ''abc'' = None \<and>
   merge_field example_library {} (Flags_fields ! 34) (VInt 5) (VString ''abc'') = VInt 5 \<and>
   wt_Flags example_defaults \<and> wt_Flags (zero_Flags[34 := VInt 7]) \<and>
   (34::nat) < length Flags_fields \<and>
   merge example_library {} example_defaults (zero_Flags[34 := VInt 7]) ! 34 = VInt 7"
proof -
  have pf: "ParseFloat example_library ''42.9'' = Some 0x4045733333333333"
      "ParseFloat example_library ''7'' = Some 0x401C000000000000"
      "ParseFloat example_library ''abc'' = None"
    by (simp_all add: example_library_def example_ParseFloat_def)
  have pi: "ParseInt ''abc'' = None" by (simp add: ParseInt_def is_digit_def)
  have wt: "wt_Flags (zero_Flags[34 := VInt 7])"
    by (rule wt_Flags_update [OF zero_Flags_wt]) (simp_all add: Seed_field)
  have y: "(zero_Flags[34 := VInt 7]) ! 34 = VInt 7" by (simp add: zero_Flags_length)
  from conversion_never_reached_by_merge
         [where lib = example_library and n = 0 and str = "''abc''" and usedFlags = "{}"
            and field = "Flags_fields ! 34" and ret = example_defaults
            and yamlFlags = "zero_Flags[34 := VInt 7]" and i = 34]
       conversion_never_reached_by_merge
         [where lib = example_library and n = 5 and str = "''abc''" and usedFlags = "{}"
            and field = "Flags_fields ! 34" and ret = example_defaults
            and yamlFlags = "zero_Flags[34 := VInt 7]" and i = 34]
       pf pi wt y example_defaults_wt Seed_field
  show ?thesis by simp
qed

text \<open>
  C4, as stated: the extracted name is what stands before the first \<open>=\<close> of the token's
  remainder. It fails for a remainder that begins with \<open>=\<close>: the code cuts only at an
  index greater than 0, so \<^verbatim>\<open>--=x\<close> yields \<^verbatim>\<open>=x\<close>, not the empty name.
\<close>

theorem extractFlag_leading_eq_counterexample:
  "extractFlag ''--=x'' = ''=x'' \<and> spec_extractFlag ''--=x'' = [] \<and>
   extractFlag ''--=x'' \<noteq> spec_extractFlag ''--=x''"
  by (simp add: extractFlag_def spec_extractFlag_def HasPrefix_def TrimPrefix_def Index_def)

text \<open>
  C4, amended. The extracted name is the remainder of the token after \<^verbatim>\<open>--\<close>, or
  after \<^verbatim>\<open>-\<close> when more characters follow, cut before its first \<open>=\<close>, except
  that a remainder beginning with \<open>=\<close> is kept whole. A config-file key is recorded
  exactly when some token's extracted name is not empty and is the long or the short name
  of a field carrying that key; every other token adds nothing, and the scan has no error
  result. The exception is not observable in the recorded set: the same keys are recorded
  when the name is extracted as the specification words it.
\<close>

theorem prescan_extracts_names:
  "extractFlag arg =
     (if HasPrefix (remainder arg) ''='' then remainder arg else spec_extractFlag arg) \<and>
   (y \<in> scan_args args \<longleftrightarrow>
      (\<exists>arg\<in>set args. \<exists>f\<in>set Flags_fields. yaml_tag f = y \<and> y \<noteq> [] \<and> extractFlag arg \<noteq> [] \<and>
          (extractFlag arg = long_tag f \<or> extractFlag arg = short_tag f))) \<and>
   (y \<in> scan_args args \<longleftrightarrow>
      (\<exists>arg\<in>set args. \<exists>f\<in>set Flags_fields. yaml_tag f = y \<and> y \<noteq> [] \<and> spec_extractFlag arg \<noteq> [] \<and>
          (spec_extractFlag arg = long_tag f \<or> spec_extractFlag arg = short_tag f)))"
proof -
  have a: "y \<in> scan_args args \<longleftrightarrow>
      (\<exists>arg\<in>set args. \<exists>f\<in>set Flags_fields. yaml_tag f = y \<and> y \<noteq> [] \<and> extractFlag arg \<noteq> [] \<and>
          (extractFlag arg = long_tag f \<or> extractFlag arg = short_tag f))"
    unfolding scan_args_iff flagToYamlTag_iff by blast
  have b: "(extractFlag arg \<noteq> [] \<and> (extractFlag arg = long_tag f \<or> extractFlag arg = short_tag f)) \<longleftrightarrow>
           (spec_extractFlag arg \<noteq> [] \<and> (spec_extractFlag arg = long_tag f \<or> spec_extractFlag arg = short_tag f))"
    if "f \<in> set Flags_fields" "yaml_tag f \<noteq> []" for arg f
    using name_match_iff [of "long_tag f" arg] name_match_iff [of "short_tag f" arg]
      schema_name_no_eq [OF that, of "long_tag f"] schema_name_no_eq [OF that, of "short_tag f"]
    by metis
  have c: "y \<in> scan_args args \<longleftrightarrow>
      (\<exists>arg\<in>set args. \<exists>f\<in>set Flags_fields. yaml_tag f = y \<and> y \<noteq> [] \<and> spec_extractFlag arg \<noteq> [] \<and>
          (spec_extractFlag arg = long_tag f \<or> spec_extractFlag arg = short_tag f))"
    unfolding a using b by blast
  show ?thesis using extractFlag_spec a c by blast
qed

theorem prescan_extracts_names_witness:
  "extractFlag ''--model=gpt-4'' = ''model'' \<and> extractFlag ''hello'' = [] \<and>
   scan_args [''--model=gpt-4'', ''hello''] = {''model''}"
proof -
  have "extractFlag ''--model=gpt-4'' = ''model''"
    using prescan_extracts_names [of "''--model=gpt-4''"]
    by (simp add: remainder_def spec_extractFlag_def HasPrefix_def)
  moreover have "extractFlag ''hello'' = []"
    using prescan_extracts_names [of "''hello''"]
    by (simp add: remainder_def spec_extractFlag_def HasPrefix_def)
  ultimately show ?thesis
    by (simp add: scan_args_def scan_arg_def flagToYamlTag_keyed yaml_fields add_field_def)
qed

text \<open>
  C5. Loading a config path that resolves to an absolute path where no file exists fails
  with the not-found error, and loading a file whose bytes the decoder rejects fails with
  the parse error; with an explicit \<^verbatim>\<open>--config\<close> path either failure is the result of
  \<^verbatim>\<open>Init\<close>. When no path was given and the default-path helper reports none (an
  error, or the empty path), no file is read: \<^verbatim>\<open>Init\<close> goes on to the input assembly
  with the parsed struct, and with standard input a terminal it returns that struct, its
  message extended by the last positional token if there is one.
\<close>

theorem config_loading_errors:
  "(GetAbsolutePath w path = Some absPath \<and> ReadFile w absPath = NotExist \<longrightarrow>
      loadYAMLConfig lib w path = Inl (ConfigNotFound absPath)) \<and>
   (GetAbsolutePath w path = Some absPath \<and> ReadFile w absPath = Data data \<and>
    Unmarshal lib data zero_Flags = None \<longrightarrow>
      loadYAMLConfig lib w path = Inl ConfigParseError) \<and>
   (Parse lib (Args w) = Some (parsed, rest) \<and> get_Config parsed \<noteq> [] \<and>
    loadYAMLConfig lib w (get_Config parsed) = Inl err \<longrightarrow>
      Init lib w = Inl err) \<and>
   (Parse lib (Args w) = Some (parsed, rest) \<and> get_Config parsed = [] \<and>
    (snd (GetDefaultConfigPath w) \<or> fst (GetDefaultConfigPath w) = []) \<longrightarrow>
      Init lib w = assemble w parsed rest \<and>
      (Stdin_ModeCharDevice w = Some True \<longrightarrow>
         Init lib w =
           Inr (if length rest > 0
                then set_Message parsed (AppendMessage (get_Message parsed) (last rest))
                else parsed)))"
proof -
  have a: "loadYAMLConfig lib w path = Inl (ConfigNotFound absPath)"
    if "GetAbsolutePath w path = Some absPath" "ReadFile w absPath = NotExist"
    using that by (simp add: loadYAMLConfig_def)
  have b: "loadYAMLConfig lib w path = Inl ConfigParseError"
    if "GetAbsolutePath w path = Some absPath" "ReadFile w absPath = Data data"
      "Unmarshal lib data zero_Flags = None"
    using that by (simp add: loadYAMLConfig_def)
  have c: "Init lib w = Inl err"
    if "Parse lib (Args w) = Some (parsed, rest)" "get_Config parsed \<noteq> []"
      "loadYAMLConfig lib w (get_Config parsed) = Inl err"
    using that by (simp add: Init_parsed default_config_explicit load_and_merge_def)
  have d: "Init lib w = assemble w parsed rest"
    if "Parse lib (Args w) = Some (parsed, rest)" "get_Config parsed = []"
      "snd (GetDefaultConfigPath w) \<or> fst (GetDefaultConfigPath w) = []"
    using that by (simp add: Init_parsed default_config_none load_and_merge_def)
  show ?thesis using a b c d by (auto simp: assemble_terminal)
qed

theorem config_loading_errors_witness:
  "Init example_library (example_world [''--config'', ''/tmp/missing.yaml''] NotExist True [])
     = Inl (ConfigNotFound ''/tmp/missing.yaml'') \<and>
   Init example_library (example_world [''--config'', ''/tmp/broken.yaml''] NotExist True [])
     = Inl ConfigParseError \<and>
   Init example_library (example_world [] NotExist True []) = Inr example_defaults"
proof -
  let ?m = "''/tmp/missing.yaml''" and ?b = "''/tmp/broken.yaml''"
  let ?w1 = "example_world [''--config'', ?m] NotExist True []"
  let ?w2 = "example_world [''--config'', ?b] NotExist True []"
  let ?w3 = "example_world [] NotExist True []"
  have p1: "Parse example_library (Args ?w1) = Some (example_defaults[46 := VString ?m], [])"
    by (simp add: example_world_def example_library_def example_Parse_def)
  have p2: "Parse example_library (Args ?w2) = Some (example_defaults[46 := VString ?b], [])"
    by (simp add: example_world_def example_library_def example_Parse_def)
  have p3: "Parse example_library (Args ?w3) = Some (example_defaults, [])"
    by (simp add: example_world_def example_library_def example_Parse_def)
  have c1: "get_Config (example_defaults[46 := VString ?m]) = ?m"
    and c2: "get_Config (example_defaults[46 := VString ?b]) = ?b"
    by (simp_all add: get_Config_def get_string_def Config_idx_def example_defaults_length)
  have f1: "GetAbsolutePath ?w1 ?m = Some ?m" "ReadFile ?w1 ?m = NotExist"
    by (simp_all add: example_world_def)
  have f2: "GetAbsolutePath ?w2 ?b = Some ?b" "ReadFile ?w2 ?b = Data ''temperature: [''"
      "Unmarshal example_library ''temperature: ['' zero_Flags = None"
    by (simp_all add: example_world_def example_library_def example_Unmarshal_def)
  have f3: "fst (GetDefaultConfigPath ?w3) = []" "Stdin_ModeCharDevice ?w3 = Some True"
    by (simp_all add: example_world_def)
  have l1: "loadYAMLConfig example_library ?w1 ?m = Inl (ConfigNotFound ?m)"
    using config_loading_errors [where w = ?w1 and path = ?m and absPath = ?m
        and lib = example_library] f1 by simp
  have l2: "loadYAMLConfig example_library ?w2 ?b = Inl ConfigParseError"
    using config_loading_errors [where w = ?w2 and path = ?b and absPath = ?b
        and data = "''temperature: [''" and lib = example_library] f2 by simp
  have i1: "Init example_library ?w1 = Inl (ConfigNotFound ?m)"
    using config_loading_errors [where w = ?w1 and lib = example_library and path = "[]" and absPath = "[]" and data = "[]"
        and parsed = "example_defaults[46 := VString ?m]" and rest = "[]"
        and err = "ConfigNotFound ?m"] p1 c1 l1
    by simp
  have i2: "Init example_library ?w2 = Inl ConfigParseError"
    using config_loading_errors [where w = ?w2 and lib = example_library and path = "[]" and absPath = "[]" and data = "[]"
        and parsed = "example_defaults[46 := VString ?b]" and rest = "[]"
        and err = ConfigParseError] p2 c2 l2
    by simp
  have i3: "Init example_library ?w3 = Inr example_defaults"
    using config_loading_errors [where w = ?w3 and lib = example_library and path = "[]" and absPath = "[]" and data = "[]" and err = ParseError
        and parsed = example_defaults and rest = "[]"] p3 example_defaults_Config f3
    by auto
  from i1 i2 i3 show ?thesis by simp
qed

text \<open>
  C6. When parsing and the load-and-merge step succeed and standard input is a terminal,
  or a pipe that ends with end-of-file, \<^verbatim>\<open>Init\<close> returns the merged struct with only
  its message changed: the parsed message, then the last positional token if any remain,
  then, when standard input is piped, the whole piped text; each appended part follows
  non-empty earlier content after one newline and stands alone otherwise. In scenario F
  (no positional tokens, an empty parsed message, the piped text
  \<^verbatim>\<open>line1\nline2\n\<close>) the message is exactly that text.
\<close>

theorem message_assembly:
  assumes "Parse lib (Args w) = Some (parsed, rest)" and "wt_Flags parsed"
    and "load_and_merge lib w (scan_args (Args w)) (default_config w parsed) = Inr merged"
    and "Stdin_ModeCharDevice w = Some charDevice"
    and "charDevice \<or> ending (Stdin w) = EOF"
  shows "\<exists>final. Init lib w = Inr final \<and>
      (\<forall>i. i \<noteq> Message_idx \<longrightarrow> final ! i = merged ! i) \<and>
      get_Message final =
        (let m1 = (if rest = [] then get_Message parsed
                   else if get_Message parsed = [] then last rest
                   else get_Message parsed @ [CHR 0x0A] @ last rest)
         in if charDevice then m1
            else if m1 = [] then pending (Stdin w)
            else m1 @ [CHR 0x0A] @ pending (Stdin w))"
proof -
  have init: "Init lib w = assemble w merged rest"
    using assms(1,3) by (simp add: Init_parsed)
  have len: "Message_idx < length merged"
    using load_and_merge_Message(2) [OF assms(3)] wt_Flags_length [OF assms(2)] Message_idx_less
    by (simp add: default_config_length)
  have "merged ! Message_idx = parsed ! Message_idx"
    using load_and_merge_Message(1) [OF assms(3)]
    by (simp add: default_config_nth Message_idx_def Config_idx_def)
  then have msg: "get_Message merged = get_Message parsed" by (rule get_Message_cong)
  show ?thesis
  proof (cases charDevice)
    case True
    with assms(4) have "assemble w merged rest =
        Inr (if length rest > 0 then set_Message merged (AppendMessage (get_Message merged) (last rest))
             else merged)"
      by (simp add: assemble_terminal)
    with init True len msg show ?thesis
      by (auto simp: get_Message_set AppendMessage_def set_Message_nth set_Message_length)
  next
    case False
    with assms(4,5) have "assemble w merged rest =
        Inr (let ret1 = (if length rest > 0
                      then set_Message merged (AppendMessage (get_Message merged) (last rest)) else merged)
          in set_Message ret1 (AppendMessage (get_Message ret1) (pending (Stdin w))))"
      by (simp add: assemble_piped)
    with init False len msg show ?thesis
      by (auto simp: Let_def get_Message_set AppendMessage_def set_Message_nth set_Message_length)
  qed
qed

theorem message_assembly_witness:
  "Stdin_ModeCharDevice
     (example_world [] NotExist False (''line1'' @ [CHR 0x0A] @ ''line2'' @ [CHR 0x0A])) = Some False \<and>
   ending (Stdin (example_world [] NotExist False (''line1'' @ [CHR 0x0A] @ ''line2'' @ [CHR 0x0A]))) = EOF \<and>
   map_sum id get_Message
     (Init example_library
        (example_world [] NotExist False (''line1'' @ [CHR 0x0A] @ ''line2'' @ [CHR 0x0A])))
     = Inr (''line1'' @ [CHR 0x0A] @ ''line2'' @ [CHR 0x0A])"
proof -
  let ?in = "''line1'' @ [CHR 0x0A] @ ''line2'' @ [CHR 0x0A]"
  let ?w = "example_world [] NotExist False ?in"
  have args: "Args ?w = []" by (simp add: example_world_def)
  have p: "Parse example_library (Args ?w) = Some (example_defaults, [])"
    by (simp only: args Parse_example_Nil)
  have m: "load_and_merge example_library ?w (scan_args (Args ?w)) (default_config ?w example_defaults)
      = Inr example_defaults"
    by (simp only: example_world_no_default load_and_merge_no_config [OF example_defaults_Config])
  have st: "Stdin_ModeCharDevice ?w = Some False" and e: "ending (Stdin ?w) = EOF"
    and pe: "pending (Stdin ?w) = ?in"
    by (simp_all add: example_world_def)
  from e have c: "False \<or> ending (Stdin ?w) = EOF" by simp
  from message_assembly [OF p example_defaults_wt m st c]
  obtain final where f: "Init example_library ?w = Inr final"
    and g: "get_Message final = pending (Stdin ?w)"
    by (auto simp: example_defaults_Message)
  from g have "get_Message final = ?in" by (simp only: pe)
  with f st e show ?thesis by simp
qed

text \<open>
  C9. The result of \<^verbatim>\<open>Init\<close> is a function of what the run reads: two runs of the
  same program with the same raw tokens, the same default config path, the same resolution
  and content of the one config file consulted, and the same standard input (terminal or
  pipe, and the bytes on it) return the same result, whatever else differs between them.
\<close>

theorem Init_deterministic:
  assumes "Args w1 = Args w2"
    and "GetDefaultConfigPath w1 = GetDefaultConfigPath w2"
    and "GetAbsolutePath w1 (config_path lib w1) = GetAbsolutePath w2 (config_path lib w1)"
    and "\<forall>absPath. GetAbsolutePath w1 (config_path lib w1) = Some absPath \<longrightarrow>
           ReadFile w1 absPath = ReadFile w2 absPath"
    and "Stdin_ModeCharDevice w1 = Stdin_ModeCharDevice w2"
    and "Stdin w1 = Stdin w2"
  shows "Init lib w1 = Init lib w2"
proof (cases "Parse lib (Args w1)")
  case None
  with assms(1) show ?thesis by (simp add: Init_def)
next
  case (Some pr)
  obtain parsed rest where pr: "pr = (parsed, rest)" by (cases pr)
  with Some have p1: "Parse lib (Args w1) = Some (parsed, rest)" by simp
  with assms(1) have p2: "Parse lib (Args w2) = Some (parsed, rest)" by simp
  let ?ret = "default_config w1 parsed"
  have dc: "default_config w2 parsed = ?ret"
    using default_config_depends [OF assms(2)] by simp
  have cp: "config_path lib w1 = get_Config ?ret" using p1 by (rule config_path_eq)
  have "loadYAMLConfig lib w1 (get_Config ?ret) = loadYAMLConfig lib w2 (get_Config ?ret)"
    using assms(3,4) unfolding cp by (rule loadYAMLConfig_depends)
  then have lm: "load_and_merge lib w2 (scan_args (Args w2)) ?ret =
             load_and_merge lib w1 (scan_args (Args w1)) ?ret"
    unfolding load_and_merge_def assms(1) by simp
  have "Init lib w2 =
      (case load_and_merge lib w1 (scan_args (Args w1)) ?ret of
         Inl err \<Rightarrow> Inl err | Inr merged \<Rightarrow> assemble w2 merged rest)"
    unfolding Init_parsed [OF p2] dc lm ..
  also have "\<dots> =
      (case load_and_merge lib w1 (scan_args (Args w1)) ?ret of
         Inl err \<Rightarrow> Inl err | Inr merged \<Rightarrow> assemble w1 merged rest)"
    unfolding assemble_depends [OF assms(5,6)] ..
  also have "\<dots> = Init lib w1"
    unfolding Init_parsed [OF p1] ..
  finally show ?thesis by simp
qed

theorem Init_deterministic_witness:
  "ReadFile (other_files (example_world [] (Data ''temperature: 0.9'') True [])) ''/tmp/broken.yaml''
     \<noteq> ReadFile (example_world [] (Data ''temperature: 0.9'') True []) ''/tmp/broken.yaml'' \<and>
   Init example_library (example_world [] (Data ''temperature: 0.9'') True []) =
   Init example_library (other_files (example_world [] (Data ''temperature: 0.9'') True []))"
proof -
  let ?w = "example_world [] (Data ''temperature: 0.9'') True []"
  let ?p = "''/home/u/.config/fabric/config.yaml''"
  have args: "Args ?w = []" by (simp add: example_world_def)
  have p: "Parse example_library (Args ?w) = Some (example_defaults, [])"
    by (simp only: args Parse_example_Nil)
  have "get_Config (default_config ?w example_defaults) = ?p"
    by (simp add: default_config_def example_defaults_Config
        example_world_def get_Config_set example_defaults_length Config_idx_def)
  then have cp: "config_path example_library ?w = ?p"
    by (simp only: config_path_eq [OF p])
  have a: "Args ?w = Args (other_files ?w)"
    and b: "GetDefaultConfigPath ?w = GetDefaultConfigPath (other_files ?w)"
    and e: "Stdin_ModeCharDevice ?w = Stdin_ModeCharDevice (other_files ?w)"
    and f: "Stdin ?w = Stdin (other_files ?w)"
    by (simp_all add: other_files_def)
  have c: "GetAbsolutePath ?w (config_path example_library ?w) =
           GetAbsolutePath (other_files ?w) (config_path example_library ?w)"
    unfolding cp by (simp add: other_files_def)
  have d: "\<forall>absPath. GetAbsolutePath ?w (config_path example_library ?w) = Some absPath \<longrightarrow>
             ReadFile ?w absPath = ReadFile (other_files ?w) absPath"
    unfolding cp by (simp add: other_files_def example_world_def)
  have g: "ReadFile (other_files ?w) ''/tmp/broken.yaml'' \<noteq> ReadFile ?w ''/tmp/broken.yaml''"
    by (simp add: other_files_def example_world_def)
  from Init_deterministic [OF a b c d e f] g show ?thesis by simp
qed

text \<open>
  C10. The remainder of a single-dash token is looked up as one name: for a token
  \<open>-cs\<close> whose remainder has no \<open>=\<close> and no further leading dash the extracted name
  is the whole of \<open>cs\<close>, and when that is no name of the schema the token records
  nothing, even if every letter of it is a short flag (as in \<^verbatim>\<open>-sp\<close>). The
  bare tokens \<^verbatim>\<open>-\<close> and \<^verbatim>\<open>--\<close> record nothing. A key is recorded only through a
  token whose whole extracted name is in the name map.
\<close>

theorem bundled_short_flags_not_recorded:
  "(CHR ''='' \<notin> set cs \<and> cs \<noteq> [] \<and> hd cs \<noteq> CHR ''-'' \<longrightarrow> extractFlag (CHR ''-'' # cs) = cs) \<and>
   (CHR ''='' \<notin> set cs \<and> cs \<noteq> [] \<and> hd cs \<noteq> CHR ''-'' \<and> flagToYamlTag cs = None \<longrightarrow>
      scan_arg (CHR ''-'' # cs) usedFlags = usedFlags) \<and>
   scan_arg ''-'' usedFlags = usedFlags \<and> scan_arg ''--'' usedFlags = usedFlags \<and>
   (y \<in> scan_args args \<longleftrightarrow>
      (\<exists>arg\<in>set args. extractFlag arg \<noteq> [] \<and> flagToYamlTag (extractFlag arg) = Some y))"
  using extractFlag_single_dash [of cs] scan_arg_unmatched [of "CHR ''-'' # cs" usedFlags]
    scan_arg_bare_dashes [of usedFlags] scan_args_iff [of y args]
  by auto

theorem bundled_short_flags_not_recorded_witness:
  "flagToYamlTag ''s'' = Some ''stream'' \<and> flagToYamlTag ''p'' = Some ''pattern'' \<and>
   extractFlag ''-sp'' = ''sp'' \<and> flagToYamlTag ''sp'' = None \<and>
   scan_arg ''-sp'' {} = {} \<and> scan_args [''-sp'', ''-'', ''--''] = {}"
proof -
  have a: "flagToYamlTag ''s'' = Some ''stream''" "flagToYamlTag ''p'' = Some ''pattern''"
      "flagToYamlTag ''sp'' = None"
    by (simp_all add: flagToYamlTag_keyed yaml_fields add_field_def)
  have b: "CHR ''='' \<notin> set ''sp'' \<and> ''sp'' \<noteq> [] \<and> hd ''sp'' \<noteq> CHR ''-''" by simp
  from bundled_short_flags_not_recorded [where cs = "''sp''" and usedFlags = "{}"] a b
  have c: "extractFlag ''-sp'' = ''sp''" "scan_arg ''-sp'' {} = {}"
    "scan_arg ''-'' {} = {}" "scan_arg ''--'' {} = {}"
    by simp_all
  then have "scan_args [''-sp'', ''-'', ''--''] = {}" by (simp add: scan_args_def)
  with a c show ?thesis by simp
qed

section \<open>Further scenarios\<close>

text \<open>
  Scenario A: the tokens \<^verbatim>\<open>--model gpt-4 hello\<close>, no config file, standard input a
  terminal. The model is the parsed one and the message is the positional token.
\<close>

lemma scenario_A:
  "Init example_library (example_world [''--model'', ''gpt-4'', ''hello''] NotExist True []) =
     Inr (set_Message (example_defaults[19 := VString ''gpt-4'']) ''hello'')"
proof -
  let ?w = "example_world [''--model'', ''gpt-4'', ''hello''] NotExist True []"
  let ?parsed = "example_defaults[19 := VString ''gpt-4'']"
  have p: "Parse example_library (Args ?w) = Some (?parsed, [''hello''])"
    by (simp add: example_world_def example_library_def example_Parse_def)
  have c: "get_Config ?parsed = []"
    by (simp add: get_Config_update Config_idx_def example_defaults_Config)
  have m: "get_Message ?parsed = []"
    by (simp add: get_Message_def get_string_def Message_idx_def example_defaults_length)
       (simp add: example_defaults_def zero_Flags_def Flags_fields_def)
  have t: "Stdin_ModeCharDevice ?w = Some True" by (simp add: example_world_def)
  have "Init example_library ?w = assemble ?w ?parsed [''hello'']"
    by (simp add: Init_parsed [OF p] example_world_no_default load_and_merge_no_config [OF c])
  then show ?thesis by (simp add: assemble_terminal [OF t] m AppendMessage_def)
qed

text \<open>
  A bundle of short flags is not a name of either option: with the token \<^verbatim>\<open>-sr\<close>
  (stream and raw, both set by the parser) and a config file that mentions neither, both
  fields are taken from the decoded struct, where they are false.
\<close>

lemma bundle_not_protected:
  "\<not> named_on_cli (Flags_fields ! 8) [''-sr''] \<and>
   Parse example_library [''-sr''] = Some (example_defaults[8 := VBool True, 10 := VBool True], []) \<and>
   resolved_field
     (Init example_library (example_world [''-sr''] (Data ''temperature: 0.9'') True [])) 8
     = Some (VBool False)"
proof -
  let ?w = "example_world [''-sr''] (Data ''temperature: 0.9'') True []"
  let ?parsed = "example_defaults[8 := VBool True, 10 := VBool True]"
  let ?p = "''/home/u/.config/fabric/config.yaml''"
  have n: "\<not> named_on_cli (Flags_fields ! 8) [''-sr'']"
    by (simp add: named_on_cli_def option_named_def names_flag_def HasPrefix_def Flags_fields_def)
  have p: "Parse example_library [''-sr''] = Some (?parsed, [])"
    by (simp add: example_library_def example_Parse_def)
  have s: "scan_args [''-sr''] = {}"
    by (simp add: scan_args_def scan_arg_def extractFlag_def HasPrefix_def TrimPrefix_def Index_def
      flagToYamlTag_keyed yaml_fields add_field_def)
  have wtp: "wt_Flags ?parsed"
    by (intro wt_Flags_update example_defaults_wt) (simp_all add: Flags_fields_def)
  have wtc: "wt_Flags (set_Config ?parsed ?p)"
    unfolding set_Config_def
    by (rule wt_Flags_update [OF wtp]) (simp_all add: Config_idx_def Flags_fields_def)
  have wty: "wt_Flags (zero_Flags[6 := VFloat 0x3FECCCCCCCCCCCCD])"
    by (rule wt_Flags_update [OF zero_Flags_wt]) (simp_all add: Flags_fields_def)
  have i: "Init example_library ?w =
      Inr (merge example_library {} (set_Config ?parsed ?p) (zero_Flags[6 := VFloat 0x3FECCCCCCCCCCCCD]))"
    by (simp add: Init_def example_world_def example_library_def example_Parse_def s
      default_config_def load_and_merge_def loadYAMLConfig_def example_Unmarshal_def assemble_def
      get_Config_update get_Config_set example_defaults_Config example_defaults_length Config_idx_def)
  have "merge example_library {} (set_Config ?parsed ?p) (zero_Flags[6 := VFloat 0x3FECCCCCCCCCCCCD]) ! 8
      = VBool False"
  proof -
    have f: "(8::nat) < length Flags_fields" "yaml_tag (Flags_fields ! 8) = ''stream''"
      "zero_Flags ! 8 = VBool False"
      by (simp_all add: zero_Flags_def Flags_fields_def)
    with merge_nth_typed [OF wtc wty f(1), of example_library "{}"] show ?thesis by simp
  qed
  with i have "resolved_field (Init example_library ?w) 8 = Some (VBool False)"
    by (simp only: resolved_field_def sum.case)
  with n p show ?thesis by simp
qed

end
